theory Spec2Isabelle
  imports Main "HOL-Library.Word"
begin

section \<open>Machine types shared by all source files\<close>

text \<open>
  The sources are written for 64-bit Windows: \<open>SIZE_T\<close> is an unsigned 64-bit integer
  and \<open>LPVOID\<close> a 64-bit pointer, so sums and differences of sizes, offsets and pointers
  wrap around. \<open>Data\<close> is \<open>std::vector<BYTE>\<close>. An \<open>Allocation *\<close> is modelled by a
  reference (a natural number naming the object); \<open>std::set<Allocation *>\<close> is the
  ascending list of its elements.
\<close>

type_synonym SIZE_T = "64 word"
type_synonym LPVOID = "64 word"
type_synonym BYTE = "8 word"
type_synonym Data = "BYTE list"
type_synonym ref = nat

text \<open>
  Every exception class thrown by the allocator sources is a constructor. Two values
  are not C++ exceptions of the source: \<open>AccessViolation\<close> is the structured exception
  raised by an unguarded \<open>ZeroMemory\<close> on inaccessible memory, and
  \<open>UndefinedBehaviour\<close> marks a call through a destroyed \<open>Allocation\<close> object or
  through a null \<open>allocator\<close> pointer, where C++ defines no behaviour.
\<close>

datatype error =
    NoAllocatorException
  | DoubleAllocationException
  | DeadAllocationException
  | ZeroSizeException
  | AddressOutOfRangeException LPVOID SIZE_T
  | OffsetOutOfRangeException SIZE_T SIZE_T
  | AllocatorZeroSizeException
  | PoolAllocationException
  | UnpooledAddressException LPVOID
  | BoundAllocationException
  | UnboundAllocationException
  | UnmanagedAllocationException
  | BadPointerException LPVOID SIZE_T
  | KernelFaultException LPVOID SIZE_T
  | AddressHasNoAllocationException LPVOID
  | SplitsExceededException LPVOID SIZE_T
  | VoidAllocatorException
  | AccessViolation
  | UndefinedBehaviour


definition bindE :: "error + 'a \<Rightarrow> ('a \<Rightarrow> error + 'b) \<Rightarrow> error + 'b" where
  "bindE m f = (case m of Inl e \<Rightarrow> Inl e | Inr x \<Rightarrow> f x)"

subsection \<open>Process memory and \<open>CopyData\<close>\<close>

text \<open>
  Process memory maps an address to its byte, or to \<open>None\<close> where an access raises an
  access violation. \<open>CopyData\<close> wraps \<open>CopyMemory\<close> in a structured exception handler and
  reports failure instead of faulting; it is split here by the side of the copy that lies
  in process memory (the other side is a \<open>Data\<close> buffer owned by the caller).
\<close>

type_synonym heap = "LPVOID \<Rightarrow> BYTE option"

definition accessible :: "heap \<Rightarrow> LPVOID \<Rightarrow> nat \<Rightarrow> bool" where
  "accessible m p n = list_all (\<lambda>i. m (p + of_nat i) \<noteq> None) [0..<n]"

definition load :: "heap \<Rightarrow> LPVOID \<Rightarrow> nat \<Rightarrow> Data" where
  "load m p n = map (\<lambda>i. case m (p + of_nat i) of Some b \<Rightarrow> b | None \<Rightarrow> 0) [0..<n]"

definition store :: "heap \<Rightarrow> LPVOID \<Rightarrow> Data \<Rightarrow> heap" where
  "store m p bs = (\<lambda>x. if unat (x - p) < length bs then Some (bs ! unat (x - p)) else m x)"

definition release :: "heap \<Rightarrow> LPVOID \<Rightarrow> nat \<Rightarrow> heap" where
  "release m p n = (\<lambda>x. if unat (x - p) < n then None else m x)"

definition CopyData_out :: "heap \<Rightarrow> LPVOID \<Rightarrow> nat \<Rightarrow> Data option" where
  "CopyData_out m source n = (if accessible m source n then Some (load m source n) else None)"

definition CopyData_in :: "heap \<Rightarrow> LPVOID \<Rightarrow> Data \<Rightarrow> heap option" where
  "CopyData_in m destination bs =
     (if accessible m destination (length bs) then Some (store m destination bs) else None)"

section \<open>The pointer-based allocator (first file of \<open>part_001\<close>)\<close>

text \<open>
  An \<open>Allocation\<close> holds \<open>allocator\<close>, \<open>pointer\<close> and \<open>size\<close>. There is one
  \<open>Allocator\<close> in the model, so the field \<open>allocator\<close> records only whether the
  pointer is non-null. The \<open>Allocator\<close> holds \<open>memoryPool\<close>, \<open>bindings\<close> and
  \<open>allocations\<close>; the model adds the \<open>Allocation\<close> objects its pointers refer to and the
  process memory, because \<open>bind\<close>, \<open>rebind\<close> and \<open>unbind\<close> write through those pointers.
\<close>

record Allocation =
  allocator :: bool
  pointer :: LPVOID
  size' :: SIZE_T

record Allocator =
  memoryPool :: "LPVOID \<rightharpoonup> SIZE_T"
  bindings :: "LPVOID \<rightharpoonup> ref list"
  allocations :: "ref list"
  objects :: "ref \<rightharpoonup> Allocation"
  memory :: heap

definition set_insert :: "ref \<Rightarrow> ref list \<Rightarrow> ref list" where
  "set_insert r s = (if r \<in> set s then s else insort r s)"

definition set_erase :: "ref \<Rightarrow> ref list \<Rightarrow> ref list" where
  "set_erase r s = removeAll r s"

subsection \<open>Predicates\<close>

definition isPooled :: "Allocator \<Rightarrow> LPVOID \<Rightarrow> bool" where
  "isPooled st p \<longleftrightarrow> memoryPool st p \<noteq> None"

definition Allocator_isBound :: "Allocator \<Rightarrow> ref \<Rightarrow> bool" where
  "Allocator_isBound st r =
     (case objects st r of
        None \<Rightarrow> False
      | Some a \<Rightarrow> (case bindings st (pointer a) of None \<Rightarrow> False | Some s \<Rightarrow> r \<in> set s))"

definition isAllocated :: "Allocator \<Rightarrow> ref \<Rightarrow> bool" where
  "isAllocated st r \<longleftrightarrow> r \<in> set (allocations st)"

definition Allocation_isValid :: "Allocator \<Rightarrow> ref \<Rightarrow> bool" where
  "Allocation_isValid st r =
     (case objects st r of
        None \<Rightarrow> False
      | Some a \<Rightarrow> allocator a \<and> pointer a \<noteq> 0 \<and> size' a \<noteq> 0 \<and> isPooled st (pointer a))"

definition Allocation_isBound :: "Allocator \<Rightarrow> ref \<Rightarrow> bool" where
  "Allocation_isBound st r \<longleftrightarrow> Allocation_isValid st r \<and> Allocator_isBound st r"

definition Allocation_isNull :: "Allocation \<Rightarrow> bool" where
  "Allocation_isNull a \<longleftrightarrow> \<not> allocator a \<or> pointer a = 0 \<or> size' a = 0"

text \<open>The four overloads of \<open>Allocation::inRange\<close>; both ends of the range are inclusive.\<close>

definition Allocation_inRange_offset :: "Allocation \<Rightarrow> SIZE_T \<Rightarrow> bool" where
  "Allocation_inRange_offset a offset =
     (if pointer a = 0 \<or> size' a = 0 then False
      else (let p = pointer a + offset; start = pointer a; end = start + size' a
            in p \<ge> start \<and> p \<le> end))"

definition Allocation_inRange_offset_size :: "Allocation \<Rightarrow> SIZE_T \<Rightarrow> SIZE_T \<Rightarrow> bool" where
  "Allocation_inRange_offset_size a offset n \<longleftrightarrow>
     Allocation_inRange_offset a offset \<and> Allocation_inRange_offset a (offset + n)"

definition Allocation_inRange_address :: "Allocation \<Rightarrow> LPVOID \<Rightarrow> bool" where
  "Allocation_inRange_address a address =
     (if pointer a = 0 \<or> size' a = 0 then False
      else (let start = pointer a; end = pointer a + size' a
            in address \<ge> start \<and> address \<le> end))"

definition Allocation_inRange_address_size :: "Allocation \<Rightarrow> LPVOID \<Rightarrow> SIZE_T \<Rightarrow> bool" where
  "Allocation_inRange_address_size a address n \<longleftrightarrow>
     Allocation_inRange_address a address \<and> Allocation_inRange_address a (address + n)"

subsection \<open>Guards\<close>

definition throwIfNotPooled :: "Allocator \<Rightarrow> LPVOID \<Rightarrow> error + unit" where
  "throwIfNotPooled st p = (if isPooled st p then Inr () else Inl (UnpooledAddressException p))"

definition throwIfNotAllocated :: "Allocator \<Rightarrow> ref \<Rightarrow> error + unit" where
  "throwIfNotAllocated st r =
     (if isAllocated st r then Inr () else Inl UnmanagedAllocationException)"

definition throwIfBound :: "Allocator \<Rightarrow> ref \<Rightarrow> error + unit" where
  "throwIfBound st r = (if Allocator_isBound st r then Inl BoundAllocationException else Inr ())"

definition throwIfNotBound :: "Allocator \<Rightarrow> ref \<Rightarrow> error + unit" where
  "throwIfNotBound st r =
     (if Allocator_isBound st r then Inr () else Inl UnboundAllocationException)"

definition Allocation_throwIfInvalid :: "Allocator \<Rightarrow> ref \<Rightarrow> error + unit" where
  "Allocation_throwIfInvalid st r =
     (case objects st r of
        None \<Rightarrow> Inl UndefinedBehaviour
      | Some a \<Rightarrow>
          if Allocation_isValid st r then Inr ()
          else if \<not> allocator a then Inl NoAllocatorException
          else if pointer a = 0 then Inl DeadAllocationException
          else if size' a = 0 then Inl ZeroSizeException
          else throwIfNotPooled st (pointer a))"

definition Allocation_throwIfNotInRange :: "Allocation \<Rightarrow> LPVOID \<Rightarrow> SIZE_T \<Rightarrow> error + unit" where
  "Allocation_throwIfNotInRange a address n =
     (if Allocation_inRange_address_size a address n then Inr ()
      else Inl (AddressOutOfRangeException address n))"

definition Allocation_address :: "Allocator \<Rightarrow> ref \<Rightarrow> SIZE_T \<Rightarrow> error + LPVOID" where
  "Allocation_address st r offset =
     bindE (Allocation_throwIfInvalid st r) (\<lambda>_.
       case objects st r of
         None \<Rightarrow> Inl UndefinedBehaviour
       | Some a \<Rightarrow>
           if offset > size' a then Inl (OffsetOutOfRangeException offset 0)
           else Inr (pointer a + offset))"

subsection \<open>Reading and writing\<close>

text \<open>
  \<open>Allocator::read\<close> and \<open>Allocator::write\<close> check the range against the allocation and
  then move the bytes with \<open>CopyData\<close>; a failed copy is a \<open>BadPointerException\<close>.
\<close>

definition Allocator_read :: "Allocator \<Rightarrow> ref \<Rightarrow> LPVOID \<Rightarrow> SIZE_T \<Rightarrow> error + Data" where
  "Allocator_read st r address n =
     (case objects st r of
        None \<Rightarrow> Inl UndefinedBehaviour
      | Some a \<Rightarrow>
          bindE (Allocation_throwIfNotInRange a address n) (\<lambda>_.
            case CopyData_out (memory st) address (unat n) of
              None \<Rightarrow> Inl (BadPointerException address n)
            | Some data \<Rightarrow> Inr data))"

definition Allocator_write :: "Allocator \<Rightarrow> ref \<Rightarrow> LPVOID \<Rightarrow> Data \<Rightarrow> error + Allocator" where
  "Allocator_write st r address data =
     (case objects st r of
        None \<Rightarrow> Inl UndefinedBehaviour
      | Some a \<Rightarrow>
          bindE (Allocation_throwIfNotInRange a address (of_nat (length data))) (\<lambda>_.
            case CopyData_in (memory st) address data of
              None \<Rightarrow> Inl (BadPointerException address (of_nat (length data)))
            | Some m \<Rightarrow> Inr (st\<lparr>memory := m\<rparr>)))"

text \<open>
  \<open>Allocation::read(const LPVOID, SIZE_T)\<close> and \<open>Allocation::write(LPVOID, const LPVOID,
  SIZE_T)\<close> call through \<open>this->allocator\<close> without testing it.
\<close>

definition Allocation_read_address :: "Allocator \<Rightarrow> ref \<Rightarrow> LPVOID \<Rightarrow> SIZE_T \<Rightarrow> error + Data" where
  "Allocation_read_address st r address n =
     (case objects st r of
        None \<Rightarrow> Inl UndefinedBehaviour
      | Some a \<Rightarrow>
          if \<not> allocator a then Inl UndefinedBehaviour
          else bindE (throwIfNotBound st r) (\<lambda>_. Allocator_read st r address n))"

definition Allocation_write_address :: "Allocator \<Rightarrow> ref \<Rightarrow> LPVOID \<Rightarrow> Data \<Rightarrow> error + Allocator" where
  "Allocation_write_address st r address data =
     (case objects st r of
        None \<Rightarrow> Inl UndefinedBehaviour
      | Some a \<Rightarrow>
          if \<not> allocator a then Inl UndefinedBehaviour
          else bindE (throwIfNotBound st r) (\<lambda>_. Allocator_write st r address data))"

text \<open>
  \<open>Allocation::read(SIZE_T offset, SIZE_T size)\<close> adds the offset to the pointer itself;
  \<open>Allocation::write(SIZE_T offset, const Data)\<close> goes through \<open>address(offset)\<close>. Both
  turn an \<open>AddressOutOfRangeException\<close> into an \<open>OffsetOutOfRangeException\<close>; the one in
  \<open>write\<close> carries the member \<open>size\<close>.
\<close>

definition Allocation_read :: "Allocator \<Rightarrow> ref \<Rightarrow> SIZE_T \<Rightarrow> SIZE_T \<Rightarrow> error + Data" where
  "Allocation_read st r offset n =
     (case objects st r of
        None \<Rightarrow> Inl UndefinedBehaviour
      | Some a \<Rightarrow>
          (case Allocation_read_address st r (pointer a + offset) n of
             Inl (AddressOutOfRangeException p k) \<Rightarrow> Inl (OffsetOutOfRangeException offset n)
           | other \<Rightarrow> other))"

definition Allocation_write :: "Allocator \<Rightarrow> ref \<Rightarrow> SIZE_T \<Rightarrow> Data \<Rightarrow> error + Allocator" where
  "Allocation_write st r offset data =
     (case objects st r of
        None \<Rightarrow> Inl UndefinedBehaviour
      | Some a \<Rightarrow>
          (case bindE (Allocation_address st r offset)
                  (\<lambda>address. Allocation_write_address st r address data) of
             Inl (AddressOutOfRangeException p k) \<Rightarrow> Inl (OffsetOutOfRangeException offset (size' a))
           | other \<Rightarrow> other))"

subsection \<open>Pooling\<close>

text \<open>
  \<open>pool\<close> obtains the extent from \<open>new BYTE[size]\<close>. The pointer that \<open>new\<close> returns
  is chosen by the C++ runtime, so it is an argument (\<open>newPointer\<close>) of the model; the
  block becomes accessible and is zeroed.
\<close>

definition Allocator_pool :: "Allocator \<Rightarrow> LPVOID \<Rightarrow> SIZE_T \<Rightarrow> error + (LPVOID \<times> Allocator)" where
  "Allocator_pool st newPointer n =
     (if n = 0 then Inl AllocatorZeroSizeException
      else if newPointer = 0 then Inl PoolAllocationException
      else Inr (newPointer,
                st\<lparr>memory := store (memory st) newPointer (replicate (unat n) 0),
                   memoryPool := (memoryPool st)(newPointer \<mapsto> n)\<rparr>))"

text \<open>
  The last three statements of \<open>unpool\<close>: zero the extent, \<open>delete[]\<close> it and erase it
  from \<open>memoryPool\<close>. After \<open>delete[]\<close> the block is no longer accessible.
\<close>

definition unpool_release :: "Allocator \<Rightarrow> LPVOID \<Rightarrow> error + Allocator" where
  "unpool_release st address =
     (let n = (case memoryPool st address of None \<Rightarrow> 0 | Some n \<Rightarrow> n)
      in if \<not> accessible (memory st) address (unat n) then Inl AccessViolation
         else Inr (st\<lparr>memory := release (memory st) address (unat n),
                      memoryPool := (memoryPool st)(address := None)\<rparr>))"

subsection \<open>Binding\<close>

definition bindingSet :: "Allocator \<Rightarrow> LPVOID \<Rightarrow> ref list" where
  "bindingSet st address = (case bindings st address of None \<Rightarrow> [] | Some s \<Rightarrow> s)"

text \<open>
  \<open>unbind\<close> and \<open>unpool\<close> call each other in the source. \<open>unbind\<close> calls \<open>unpool\<close> only
  when the binding set has become empty, after \<open>bindings.erase(boundAddress)\<close> and after
  \<open>isPooled(boundAddress)\<close> has been tested: in that call \<open>throwIfNotPooled\<close> passes and
  \<open>bindings.find\<close> finds nothing, so \<open>unpool\<close> runs only its last three statements.
  \<open>delete allocation\<close> runs the destructor, which does nothing for an allocation whose
  pointer has just been set to \<open>NULL\<close>, and destroys the object.
\<close>

definition Allocator_unbind :: "Allocator \<Rightarrow> ref \<Rightarrow> error + Allocator" where
  "Allocator_unbind st r =
     bindE (throwIfNotBound st r) (\<lambda>_.
       case objects st r of
         None \<Rightarrow> Inl UndefinedBehaviour
       | Some a \<Rightarrow>
           bindE (throwIfNotPooled st (pointer a)) (\<lambda>_.
             let boundAddress = pointer a;
                 s = set_erase r (bindingSet st boundAddress);
                 count = length s;
                 b = (if count = 0 then (bindings st)(boundAddress := None)
                      else (bindings st)(boundAddress \<mapsto> s));
                 managed = (r \<in> set (allocations st));
                 st1 = st\<lparr>bindings := b,
                          objects := (if managed then (objects st)(r := None)
                                      else (objects st)(r \<mapsto> a\<lparr>pointer := 0, size' := 0\<rparr>)),
                          allocations := (if managed then set_erase r (allocations st)
                                          else allocations st)\<rparr>
             in if count = 0 \<and> isPooled st1 boundAddress then unpool_release st1 boundAddress
                else Inr st1))"

text \<open>
  The loop of \<open>unpool\<close>,
  \<open>for (setIter = bindings[address].begin(); setIter != bindings[address].end(); ++setIter)
  unbind(*setIter)\<close>, walks a set that \<open>unbind\<close> changes. \<open>unbind(r)\<close> erases \<open>r\<close> from
  the binding set of \<open>r\<close>'s pointer, and the set itself from the map when \<open>r\<close> was its
  last element. When that is the set being walked, \<open>setIter\<close> refers to an erased
  element and \<open>++setIter\<close> has no defined behaviour. The walk goes on only when \<open>unbind\<close>
  has left the element in the walked set, which it does when the pointer of the
  allocation is another address; the rest of the set is then as it was.
\<close>

fun unpool_walk :: "Allocator \<Rightarrow> LPVOID \<Rightarrow> ref list \<Rightarrow> error + Allocator" where
  "unpool_walk st address [] = Inr st"
| "unpool_walk st address (r # rs) =
     bindE (Allocator_unbind st r) (\<lambda>st1.
       if r \<in> set (bindingSet st1 address) then unpool_walk st1 address rs
       else Inl UndefinedBehaviour)"

definition Allocator_unpool :: "Allocator \<Rightarrow> LPVOID \<Rightarrow> error + Allocator" where
  "Allocator_unpool st address =
     bindE (throwIfNotPooled st address) (\<lambda>_.
       case bindings st address of
         None \<Rightarrow> unpool_release st address
       | Some s \<Rightarrow>
           bindE (unpool_walk st address s) (\<lambda>st1.
             if \<not> isPooled st1 address then Inr st1 else unpool_release st1 address))"

definition Allocator_bind :: "Allocator \<Rightarrow> ref \<Rightarrow> LPVOID \<Rightarrow> error + Allocator" where
  "Allocator_bind st r address =
     bindE (throwIfNotPooled st address) (\<lambda>_.
       bindE (throwIfBound st r) (\<lambda>_.
         case objects st r of
           None \<Rightarrow> Inl UndefinedBehaviour
         | Some a \<Rightarrow>
             Inr (st\<lparr>bindings := (bindings st)(address \<mapsto> set_insert r (bindingSet st address)),
                     objects := (objects st)(r \<mapsto>
                        \<lparr>allocator = True, pointer = address,
                         size' = (case memoryPool st address of None \<Rightarrow> 0 | Some n \<Rightarrow> n)\<rparr>)\<rparr>)))"

definition Allocator_rebind :: "Allocator \<Rightarrow> ref \<Rightarrow> LPVOID \<Rightarrow> error + Allocator" where
  "Allocator_rebind st r newAddress =
     (if \<not> Allocator_isBound st r then Allocator_bind st r newAddress
      else case objects st r of
         None \<Rightarrow> Inl UndefinedBehaviour
       | Some a \<Rightarrow>
           bindE (throwIfNotPooled st (pointer a)) (\<lambda>_.
             bindE (throwIfNotPooled st newAddress) (\<lambda>_.
               let oldAddress = pointer a;
                   st1 = st\<lparr>bindings := (bindings st)(newAddress \<mapsto>
                                set_insert r (bindingSet st newAddress))\<rparr>;
                   st2 = st1\<lparr>bindings := (bindings st1)(oldAddress \<mapsto>
                                set_erase r (bindingSet st1 oldAddress)),
                            objects := (objects st1)(r \<mapsto>
                                \<lparr>allocator = True, pointer = newAddress,
                                 size' = (case memoryPool st newAddress of None \<Rightarrow> 0 | Some n \<Rightarrow> n)\<rparr>)\<rparr>
               in if length (bindingSet st2 oldAddress) = 0 then Allocator_unpool st2 oldAddress
                  else Inr st2)))"

text \<open>
  The loop of \<open>repool\<close>,
  \<open>for (setIter = bindings[address].begin(); setIter != bindings[address].end(); ++setIter)
  rebind(*setIter, newPool)\<close>, walks the binding set of the old address.
  \<open>rebind(r, newPool)\<close> erases \<open>r\<close> from the binding set of \<open>r\<close>'s pointer and unpools
  that address when the set has become empty. When that is the set being walked,
  \<open>setIter\<close> refers to an erased element and \<open>++setIter\<close> has no defined behaviour. The
  walk goes on only when \<open>rebind\<close> has left the element in the walked set.
\<close>

fun repool_walk :: "Allocator \<Rightarrow> LPVOID \<Rightarrow> ref list \<Rightarrow> LPVOID \<Rightarrow> error + Allocator" where
  "repool_walk st address [] newPool = Inr st"
| "repool_walk st address (r # rs) newPool =
     bindE (Allocator_rebind st r newPool) (\<lambda>st1.
       if r \<in> set (bindingSet st1 address) then repool_walk st1 address rs newPool
       else Inl UndefinedBehaviour)"

definition Allocator_repool :: "Allocator \<Rightarrow> LPVOID \<Rightarrow> LPVOID \<Rightarrow> SIZE_T \<Rightarrow> error + (LPVOID \<times> Allocator)" where
  "Allocator_repool st newPointer address n =
     bindE (throwIfNotPooled st address) (\<lambda>_.
       bindE (Allocator_pool st newPointer n) (\<lambda>(newPool, st1).
         let k = min n (case memoryPool st1 address of None \<Rightarrow> 0 | Some old \<Rightarrow> old)
         in case CopyData_out (memory st1) address (unat k) of
              None \<Rightarrow> Inl (BadPointerException address k)
            | Some bytes \<Rightarrow>
               (case CopyData_in (memory st1) newPool bytes of
                  None \<Rightarrow> Inl (BadPointerException address k)
                | Some m \<Rightarrow>
                    bindE (case bindings st1 address of
                             None \<Rightarrow> Inr (st1\<lparr>memory := m\<rparr>)
                           | Some s \<Rightarrow> repool_walk (st1\<lparr>memory := m\<rparr>) address s newPool) (\<lambda>st2.
                      bindE (if isPooled st2 address then Allocator_unpool st2 address
                             else Inr st2) (\<lambda>st3. Inr (newPool, st3))))))"

subsection \<open>Allocating, reallocating and deallocating\<close>

text \<open>
  \<open>Allocator::allocate\<close> creates the \<open>Allocation\<close> with \<open>new\<close>; the reference of the new
  object (\<open>newRef\<close>) is an argument like the pointer of the new extent.
\<close>

definition Allocator_allocate :: "Allocator \<Rightarrow> ref \<Rightarrow> LPVOID \<Rightarrow> SIZE_T \<Rightarrow> error + (ref \<times> Allocator)" where
  "Allocator_allocate st newRef newPointer n =
     bindE (Allocator_pool st newPointer n) (\<lambda>(p, st1).
       bindE (throwIfNotPooled st1 p) (\<lambda>_.
         let st2 = st1\<lparr>objects := (objects st1)(newRef \<mapsto> \<lparr>allocator = True, pointer = p, size' = n\<rparr>),
                      allocations := set_insert newRef (allocations st1)\<rparr>
         in bindE (Allocator_bind st2 newRef p) (\<lambda>st3. Inr (newRef, st3))))"

definition Allocator_deallocate :: "Allocator \<Rightarrow> ref \<Rightarrow> error + Allocator" where
  "Allocator_deallocate st r =
     bindE (throwIfNotAllocated st r) (\<lambda>_.
       case objects st r of
         None \<Rightarrow> Inl UndefinedBehaviour
       | Some a \<Rightarrow>
           bindE (throwIfNotPooled st (pointer a)) (\<lambda>_. Allocator_unpool st (pointer a)))"

definition Allocation_allocate :: "Allocator \<Rightarrow> ref \<Rightarrow> LPVOID \<Rightarrow> SIZE_T \<Rightarrow> error + Allocator" where
  "Allocation_allocate st r newPointer n =
     (case objects st r of
        None \<Rightarrow> Inl UndefinedBehaviour
      | Some a \<Rightarrow>
          if \<not> allocator a then Inl NoAllocatorException
          else if pointer a \<noteq> 0 \<and> isPooled st (pointer a) then Inl DoubleAllocationException
          else bindE (Allocator_pool st newPointer n) (\<lambda>(p, st1).
                 Allocator_bind (st1\<lparr>objects := (objects st1)(r \<mapsto> a\<lparr>pointer := p, size' := n\<rparr>)\<rparr>) r p))"

definition Allocation_reallocate :: "Allocator \<Rightarrow> ref \<Rightarrow> LPVOID \<Rightarrow> SIZE_T \<Rightarrow> error + Allocator" where
  "Allocation_reallocate st r newPointer n =
     (if \<not> Allocation_isValid st r then Allocation_allocate st r newPointer n
      else case objects st r of
         None \<Rightarrow> Inl UndefinedBehaviour
       | Some a \<Rightarrow>
           bindE (Allocator_repool st newPointer (pointer a) n) (\<lambda>(p, st1).
             case objects st1 r of
               None \<Rightarrow> Inl UndefinedBehaviour
             | Some a1 \<Rightarrow> Inr (st1\<lparr>objects := (objects st1)(r \<mapsto> a1\<lparr>pointer := p, size' := n\<rparr>)\<rparr>)))"


text \<open>
  \<open>Allocation::copy\<close> makes this handle an alias of the other one's extent.
\<close>

definition Allocation_copy :: "Allocator \<Rightarrow> ref \<Rightarrow> ref \<Rightarrow> error + Allocator" where
  "Allocation_copy st r other =
     bindE (Allocation_throwIfInvalid st other) (\<lambda>_.
       case (objects st r, objects st other) of
         (Some a, Some b) \<Rightarrow>
           let st1 = st\<lparr>objects := (objects st)(r \<mapsto> a\<lparr>allocator := allocator b\<rparr>)\<rparr>
           in if Allocation_isBound st1 r then Allocator_rebind st1 r (pointer b)
              else Allocator_bind st1 r (pointer b)
       | _ \<Rightarrow> Inl UndefinedBehaviour)"

text \<open>A fresh allocator, and a handle constructed by \<open>Allocation(Allocator *)\<close>.\<close>

definition emptyAllocator :: Allocator where
  "emptyAllocator = \<lparr>memoryPool = Map.empty, bindings = Map.empty, allocations = [],
                      objects = Map.empty, memory = (\<lambda>_. None)\<rparr>"

definition newHandle :: "Allocator \<Rightarrow> ref \<Rightarrow> Allocator" where
  "newHandle st r = st\<lparr>objects := (objects st)(r \<mapsto> \<lparr>allocator = True, pointer = 0, size' = 0\<rparr>)\<rparr>"

section \<open>The address-based allocator with split access (\<open>part_002\<close>)\<close>

text \<open>
  Names that \<open>part_002\<close> shares with the pointer-based allocator carry the suffix 2.

  \<open>part_002\<close> keeps no pointer and no size in an \<open>Allocation\<close>: the allocator maps each
  allocation to its \<open>Address\<close> (\<open>associations\<close>) and each bound address to an
  \<open>AddressPool\<close> (\<open>addressPools\<close>). \<open>std::map\<close> is an association list in ascending key
  order, because \<open>find\<close>, \<open>willSplit\<close> and the split engine walk the maps with
  \<open>upper_bound\<close>, \<open>lower_bound\<close> and \<open>++\<close>; an iterator is an index into the list.
\<close>

type_synonym Address = "64 word"

fun map_set :: "'k::linorder \<Rightarrow> 'v \<Rightarrow> ('k \<times> 'v) list \<Rightarrow> ('k \<times> 'v) list" where
  "map_set k v [] = [(k, v)]"
| "map_set k v ((k', v') # m) =
     (if k < k' then (k, v) # (k', v') # m
      else if k = k' then (k, v) # m
      else (k', v') # map_set k v m)"

definition map_erase :: "'k \<Rightarrow> ('k \<times> 'v) list \<Rightarrow> ('k \<times> 'v) list" where
  "map_erase k m = filter (\<lambda>e. fst e \<noteq> k) m"

definition upper_bound :: "'k::linorder \<Rightarrow> ('k \<times> 'v) list \<Rightarrow> nat" where
  "upper_bound k m = length (takeWhile (\<lambda>e. fst e \<le> k) m)"

definition lower_bound :: "'k::linorder \<Rightarrow> ('k \<times> 'v) list \<Rightarrow> nat" where
  "lower_bound k m = length (takeWhile (\<lambda>e. fst e < k) m)"

text \<open>
  Modelled from the spec: the classes \<open>Address\<close> and \<open>AddressPool\<close> are declared in
  headers that are not among the sources. An \<open>Address\<close> is a comparable, orderable,
  offsettable position: its 64-bit label. An \<open>AddressPool\<close> is the range of labels from
  \<open>minLabel\<close> to \<open>maxLabel\<close> that \<open>bind\<close> constructs for an extent; its \<open>size()\<close> is the
  distance between them, its \<open>address(label)\<close> the address with that label, and a
  default-constructed pool is empty.
\<close>

record AddressPool =
  minLabel :: Address
  maxLabel :: Address

definition AddressPool_size :: "AddressPool \<Rightarrow> SIZE_T" where
  "AddressPool_size pl = maxLabel pl - minLabel pl"

definition defaultAddressPool :: AddressPool where
  "defaultAddressPool = \<lparr>minLabel = 0, maxLabel = 0\<rparr>"

record Allocation2 =
  allocator2 :: bool

record Allocator2 =
  split :: bool
  pooledMemory :: "(Address \<times> SIZE_T) list"
  bindings2 :: "(Address \<times> ref list) list"
  associations :: "ref \<rightharpoonup> Address"
  addressPools :: "Address \<rightharpoonup> AddressPool"
  objects2 :: "ref \<rightharpoonup> Allocation2"
  memory2 :: heap

definition allowSplitting :: "Allocator2 \<Rightarrow> Allocator2" where
  "allowSplitting st = st\<lparr>split := True\<rparr>"

definition denySplitting :: "Allocator2 \<Rightarrow> Allocator2" where
  "denySplitting st = st\<lparr>split := False\<rparr>"

definition splits :: "Allocator2 \<Rightarrow> bool" where
  "splits st = split st"

subsection \<open>Allocator predicates and lookups\<close>

definition isPooled2 :: "Allocator2 \<Rightarrow> Address \<Rightarrow> bool" where
  "isPooled2 st address \<longleftrightarrow> map_of (pooledMemory st) address \<noteq> None"

definition isAssociated :: "Allocator2 \<Rightarrow> ref \<Rightarrow> bool" where
  "isAssociated st r \<longleftrightarrow> associations st r \<noteq> None"

text \<open>
  \<open>Allocator::isBound\<close> starts with \<open>address = allocation.address()\<close>. In \<open>part_002\<close>
  \<open>Allocation::address()\<close> calls \<open>throwIfInvalid\<close>, which calls \<open>isValid\<close>, \<open>isBound\<close>
  and \<open>Allocator::isBound\<close> again: read literally, the call never returns. The model
  reads the address of the allocation where the allocator keeps it, in
  \<open>associations\<close>; an allocation without association is not bound.
\<close>

definition Allocator2_isBound :: "Allocator2 \<Rightarrow> ref \<Rightarrow> bool" where
  "Allocator2_isBound st r =
     (case associations st r of
        None \<Rightarrow> False
      | Some address \<Rightarrow>
          (case map_of (bindings2 st) address of None \<Rightarrow> False | Some s \<Rightarrow> r \<in> set s))"

definition throwIfNotPooled2 :: "Allocator2 \<Rightarrow> Address \<Rightarrow> error + unit" where
  "throwIfNotPooled2 st address =
     (if isPooled2 st address then Inr () else Inl (UnpooledAddressException address))"

definition throwIfBound2 :: "Allocator2 \<Rightarrow> ref \<Rightarrow> error + unit" where
  "throwIfBound2 st r = (if Allocator2_isBound st r then Inl BoundAllocationException else Inr ())"

definition throwIfNotBound2 :: "Allocator2 \<Rightarrow> ref \<Rightarrow> error + unit" where
  "throwIfNotBound2 st r =
     (if Allocator2_isBound st r then Inr () else Inl UnboundAllocationException)"

definition poolOf :: "Allocator2 \<Rightarrow> Address \<Rightarrow> AddressPool" where
  "poolOf st base = (case addressPools st base of None \<Rightarrow> defaultAddressPool | Some pl \<Rightarrow> pl)"

definition querySize :: "Allocator2 \<Rightarrow> ref \<Rightarrow> error + SIZE_T" where
  "querySize st r =
     bindE (throwIfNotBound2 st r) (\<lambda>_.
       case associations st r of
         None \<Rightarrow> Inl UndefinedBehaviour
       | Some base \<Rightarrow> Inr (AddressPool_size (poolOf st base)))"

definition Allocator2_address :: "Allocator2 \<Rightarrow> ref \<Rightarrow> SIZE_T \<Rightarrow> error + Address" where
  "Allocator2_address st r offset =
     bindE (throwIfNotBound2 st r) (\<lambda>_.
       case associations st r of
         None \<Rightarrow> Inl UndefinedBehaviour
       | Some base \<Rightarrow> Inr (base + offset))"

definition addressOf :: "Allocator2 \<Rightarrow> ref \<Rightarrow> error + Address" where
  "addressOf st r =
     bindE (throwIfNotBound2 st r) (\<lambda>_.
       case associations st r of None \<Rightarrow> Inl UndefinedBehaviour | Some base \<Rightarrow> Inr base)"

subsection \<open>Allocation predicates\<close>

text \<open>
  A predicate of the source that calls a throwing function can throw itself, so the
  predicates return a result. \<open>Allocation::isValid\<close> asks \<open>isPooled(this->address())\<close>; as in
  \<open>Allocator::isBound\<close> the address is read from \<open>associations\<close>. In \<open>throwIfInvalid\<close> the
  tests \<open>this->address.isNull()\<close> and \<open>this->size == 0\<close> name members that \<open>part_002\<close> no
  longer has: they are read as "the allocation has no associated address" and
  \<open>size() == 0\<close>, and \<open>this->allocation\<close> as the associated address. \<open>end()\<close> calls
  \<open>getSize()\<close>, which is \<open>size()\<close> under its former name.
\<close>

definition Allocation2_size :: "Allocator2 \<Rightarrow> ref \<Rightarrow> error + SIZE_T" where
  "Allocation2_size st r =
     (case objects2 st r of
        None \<Rightarrow> Inl UndefinedBehaviour
      | Some h \<Rightarrow> if \<not> allocator2 h then Inl NoAllocatorException else querySize st r)"

definition Allocation2_isNull :: "Allocator2 \<Rightarrow> ref \<Rightarrow> error + bool" where
  "Allocation2_isNull st r =
     (case objects2 st r of
        None \<Rightarrow> Inl UndefinedBehaviour
      | Some h \<Rightarrow>
          if \<not> allocator2 h then Inr True
          else if \<not> isAssociated st r then Inr True
          else bindE (Allocation2_size st r) (\<lambda>n. Inr (n = 0)))"

definition Allocation2_isBound :: "Allocator2 \<Rightarrow> ref \<Rightarrow> error + bool" where
  "Allocation2_isBound st r =
     bindE (Allocation2_isNull st r) (\<lambda>null. Inr (\<not> null \<and> Allocator2_isBound st r))"

definition Allocation2_isValid :: "Allocator2 \<Rightarrow> ref \<Rightarrow> error + bool" where
  "Allocation2_isValid st r =
     bindE (Allocation2_isBound st r) (\<lambda>b.
       if \<not> b then Inr False
       else case associations st r of
              None \<Rightarrow> Inr False
            | Some base \<Rightarrow> Inr (isPooled2 st base))"

definition Allocation2_throwIfInvalid :: "Allocator2 \<Rightarrow> ref \<Rightarrow> error + unit" where
  "Allocation2_throwIfInvalid st r =
     bindE (Allocation2_isValid st r) (\<lambda>v.
       if v then Inr ()
       else case objects2 st r of
          None \<Rightarrow> Inl UndefinedBehaviour
        | Some h \<Rightarrow>
            if \<not> allocator2 h then Inl NoAllocatorException
            else case associations st r of
                   None \<Rightarrow> Inl DeadAllocationException
                 | Some base \<Rightarrow>
                     bindE (Allocation2_size st r) (\<lambda>n.
                       if n = 0 then Inl ZeroSizeException else throwIfNotPooled2 st base))"

definition Allocation2_address :: "Allocator2 \<Rightarrow> ref \<Rightarrow> SIZE_T \<Rightarrow> error + Address" where
  "Allocation2_address st r offset =
     bindE (Allocation2_throwIfInvalid st r) (\<lambda>_. Allocator2_address st r offset)"

definition Allocation2_start :: "Allocator2 \<Rightarrow> ref \<Rightarrow> error + Address" where
  "Allocation2_start st r = Allocation2_address st r 0"

definition Allocation2_end :: "Allocator2 \<Rightarrow> ref \<Rightarrow> error + Address" where
  "Allocation2_end st r = bindE (Allocation2_size st r) (\<lambda>n. Allocation2_address st r n)"

text \<open>
  The four overloads of \<open>Allocation::inRange\<close> of \<open>part_002\<close>: the end of the range is
  exclusive, and a range of size 0 is never in range.
\<close>

definition Allocation2_inRange_address :: "Allocator2 \<Rightarrow> ref \<Rightarrow> Address \<Rightarrow> error + bool" where
  "Allocation2_inRange_address st r address =
     bindE (Allocation2_start st r) (\<lambda>s.
       if \<not> address \<ge> s then Inr False
       else bindE (Allocation2_end st r) (\<lambda>e. Inr (address < e)))"

definition Allocation2_inRange_address_size :: "Allocator2 \<Rightarrow> ref \<Rightarrow> Address \<Rightarrow> SIZE_T \<Rightarrow> error + bool" where
  "Allocation2_inRange_address_size st r address n =
     (if n = 0 then Inr False
      else bindE (Allocation2_inRange_address st r address) (\<lambda>b.
             if \<not> b then Inr False else Allocation2_inRange_address st r (address + n - 1)))"

definition Allocation2_inRange_offset :: "Allocator2 \<Rightarrow> ref \<Rightarrow> SIZE_T \<Rightarrow> error + bool" where
  "Allocation2_inRange_offset st r offset =
     bindE (Allocation2_isNull st r) (\<lambda>null.
       if null then Inr False
       else bindE (Allocation2_size st r) (\<lambda>n.
              if n = 0 then Inr False
              else bindE (Allocation2_start st r) (\<lambda>s.
                     Allocation2_inRange_address st r (s + offset))))"

definition Allocation2_inRange_offset_size :: "Allocator2 \<Rightarrow> ref \<Rightarrow> SIZE_T \<Rightarrow> SIZE_T \<Rightarrow> error + bool" where
  "Allocation2_inRange_offset_size st r offset n =
     (if n = 0 then Inr False
      else bindE (Allocation2_inRange_offset st r offset) (\<lambda>b.
             if \<not> b then Inr False else Allocation2_inRange_offset st r (offset + n - 1)))"

definition Allocation2_throwIfNotInRange_address :: "Allocator2 \<Rightarrow> ref \<Rightarrow> Address \<Rightarrow> error + unit" where
  "Allocation2_throwIfNotInRange_address st r address =
     bindE (Allocation2_inRange_address st r address) (\<lambda>b.
       if b then Inr () else Inl (AddressOutOfRangeException address 0))"

definition Allocation2_throwIfNotInRange :: "Allocator2 \<Rightarrow> ref \<Rightarrow> Address \<Rightarrow> SIZE_T \<Rightarrow> error + unit" where
  "Allocation2_throwIfNotInRange st r address n =
     bindE (Allocation2_inRange_address_size st r address n) (\<lambda>b.
       if b then Inr () else Inl (AddressOutOfRangeException address n))"

subsection \<open>Finding the allocation of an address\<close>

text \<open>
  \<open>*s.begin()\<close> of an empty set has no defined behaviour.

  \<open>Allocator::find\<close> returns an \<open>Allocation\<close> by value: a copy of the allocation it has
  located, or of the null allocation \<open>Allocation(this)\<close>. The copy constructor assigns
  with \<open>operator=\<close>, which calls \<open>copy\<close> when the allocation copied is valid, and
  \<open>copy\<close> binds the new object to the extent of that allocation (\<open>Allocator::bind\<close>:
  the object enters the binding set and \<open>associations\<close>; the extent has its address pool
  already). When the allocation copied is not valid the new object gets no address: it is
  a null allocation. The second \<open>return\<close> of \<open>find\<close> hands over
  \<open>*bindIter->second.begin()\<close>, a pointer; like \<open>begin()->inRange\<close> in the line before
  it, it is read with the second dereference of the first \<open>return\<close>.

  The model gives \<open>Some r\<close> for a copy bound beside the allocation \<open>r\<close>, and \<open>None\<close> for
  a null allocation. Bound to the same extent, the copy answers \<open>isNull\<close>, \<open>inRange\<close>,
  \<open>start\<close>, \<open>end\<close> and \<open>size\<close> as \<open>r\<close> does, so the model asks \<open>r\<close>; it does not enter
  the copy into \<open>bindings\<close> and \<open>associations\<close>, which nothing reads while a copy lives.
\<close>

definition firstOf :: "ref list \<Rightarrow> error + ref" where
  "firstOf s = (case s of [] \<Rightarrow> Inl UndefinedBehaviour | r # rs \<Rightarrow> Inr r)"

definition copyOf :: "Allocator2 \<Rightarrow> ref \<Rightarrow> error + ref option" where
  "copyOf st r = bindE (Allocation2_isValid st r) (\<lambda>valid. Inr (if valid then Some r else None))"

definition Allocator2_find :: "Allocator2 \<Rightarrow> Address \<Rightarrow> error + ref option" where
  "Allocator2_find st address =
     (case map_of (bindings2 st) address of
        Some s \<Rightarrow> bindE (firstOf s) (\<lambda>r. copyOf st r)
      | None \<Rightarrow>
          (let i = upper_bound address (bindings2 st)
           in if i = 0 then Inr None
              else bindE (firstOf (snd (bindings2 st ! (i - 1)))) (\<lambda>r.
                     bindE (Allocation2_inRange_address st r address) (\<lambda>b.
                       if b then copyOf st r else Inr None))))"

text \<open>
  The copy that \<open>find\<close> returned is destroyed when its scope ends. The destructor of a
  bound allocation calls \<open>Allocator::unbind\<close>, and \<open>unbind\<close> erases the address pool of
  the extent (\<open>addressPools.erase(boundAddress)\<close>) before it takes the object out of
  \<open>associations\<close> and out of the binding set, which still holds the allocation copied
  and is not empty. What stays of the copy is that the extent has lost its address pool:
  the size of every allocation bound to it is 0 from then on. \<open>destroyFound st found\<close>
  is the state after the destructor of \<open>found\<close> has run in \<open>st\<close>, and \<open>afterFind\<close> the
  state that a routine leaves which has called \<open>find\<close> and changed nothing else.
\<close>

definition destroyFound :: "Allocator2 \<Rightarrow> ref option \<Rightarrow> error + Allocator2" where
  "destroyFound st found =
     (case found of
        None \<Rightarrow> Inr st
      | Some r \<Rightarrow>
          bindE (Allocation2_isBound st r) (\<lambda>bound.
            if \<not> bound then Inr st
            else case associations st r of
                   None \<Rightarrow> Inl UndefinedBehaviour
                 | Some boundAddress \<Rightarrow>
                     bindE (throwIfNotPooled2 st boundAddress) (\<lambda>_.
                       Inr (st\<lparr>addressPools := (addressPools st)(boundAddress := None)\<rparr>))))"

definition afterFind :: "Allocator2 \<Rightarrow> Address \<Rightarrow> error + Allocator2" where
  "afterFind st address = bindE (Allocator2_find st address) (\<lambda>found. destroyFound st found)"

text \<open>
  \<open>hasAddress\<close> tests the temporary that \<open>find\<close> returns, which is destroyed at the end
  of the \<open>return\<close> statement. \<open>throwIfNoAllocation\<close> returns nothing; the model returns
  the state it leaves.
\<close>

definition hasAddress :: "Allocator2 \<Rightarrow> Address \<Rightarrow> error + (bool \<times> Allocator2)" where
  "hasAddress st address =
     bindE (Allocator2_find st address) (\<lambda>found.
       bindE (case found of
                None \<Rightarrow> Inr False
              | Some r \<Rightarrow> bindE (Allocation2_isNull st r) (\<lambda>null. Inr (\<not> null))) (\<lambda>has.
         bindE (destroyFound st found) (\<lambda>st1. Inr (has, st1))))"

definition throwIfNoAllocation :: "Allocator2 \<Rightarrow> Address \<Rightarrow> error + Allocator2" where
  "throwIfNoAllocation st address =
     bindE (hasAddress st address) (\<lambda>(has, st1).
       if has then Inr st1 else Inl (AddressHasNoAllocationException address))"

text \<open>
  \<open>willSplit\<close> keeps what \<open>find\<close> returned in the local \<open>foundAllocation\<close> until it
  returns. \<open>Allocator2_willSplit\<close> is the value it returns; the state it leaves is
  \<open>afterFind\<close>.
\<close>

definition Allocator2_willSplit :: "Allocator2 \<Rightarrow> Address \<Rightarrow> SIZE_T \<Rightarrow> error + bool" where
  "Allocator2_willSplit st address n =
     bindE (Allocator2_find st address) (\<lambda>found.
       case found of
         None \<Rightarrow> Inr False
       | Some r \<Rightarrow>
           bindE (Allocation2_isNull st r) (\<lambda>null.
             if null then Inr False
             else bindE (Allocation2_inRange_address_size st r address n) (\<lambda>inside.
                    if inside then Inr False
                    else bindE (Allocation2_end st r) (\<lambda>endAddr.
                           let i = upper_bound address (pooledMemory st)
                           in Inr (i \<noteq> length (pooledMemory st)
                                   \<and> endAddr = fst (pooledMemory st ! i))))))"

subsection \<open>The backing store (local allocator of \<open>part_000\<close>)\<close>

text \<open>
  In \<open>part_002\<close> the primitives \<open>pool\<close>, \<open>repool\<close>, \<open>unpool\<close>, \<open>readAddress\<close> and
  \<open>writeAddress\<close> of the base class only throw \<open>VoidAllocatorException\<close>: a backing store
  overrides them. The model takes the local-heap backing store of \<open>part_000\<close>
  (\<open>poolAddress\<close>, \<open>repoolAddress\<close>, \<open>unpoolAddress\<close>, \<open>readAddress\<close>, \<open>writeAddress\<close>) in
  its release build, where \<open>zeroAddress\<close> runs. \<open>zeroAddress\<close> is not among the sources;
  it is taken to write zeros through \<open>writeAddress\<close>. As in \<open>pool\<close> above, the pointer
  returned by \<open>new BYTE[size]\<close> is an argument.
\<close>

definition readAddress :: "Allocator2 \<Rightarrow> Address \<Rightarrow> SIZE_T \<Rightarrow> error + Data" where
  "readAddress st address n =
     (case CopyData_out (memory2 st) address (unat n) of
        None \<Rightarrow> Inl (KernelFaultException address n)
      | Some data \<Rightarrow> Inr data)"

definition writeAddress :: "Allocator2 \<Rightarrow> Address \<Rightarrow> Data \<Rightarrow> error + Allocator2" where
  "writeAddress st destination data =
     (case CopyData_in (memory2 st) destination data of
        None \<Rightarrow> Inl (KernelFaultException destination (of_nat (length data)))
      | Some m \<Rightarrow> Inr (st\<lparr>memory2 := m\<rparr>))"

definition sizeAt :: "Allocator2 \<Rightarrow> Address \<Rightarrow> SIZE_T" where
  "sizeAt st address = (case map_of (pooledMemory st) address of None \<Rightarrow> 0 | Some n \<Rightarrow> n)"

definition poolAddress :: "Allocator2 \<Rightarrow> Address \<Rightarrow> SIZE_T \<Rightarrow> error + (Address \<times> Allocator2)" where
  "poolAddress st newPointer n =
     (let st1 = st\<lparr>pooledMemory := map_set newPointer n (pooledMemory st),
                  memory2 := store (memory2 st) newPointer (replicate (unat n) 0)\<rparr>
      in Inr (newPointer, st1))"

definition unpoolAddress :: "Allocator2 \<Rightarrow> Address \<Rightarrow> error + Allocator2" where
  "unpoolAddress st address =
     bindE (throwIfNotPooled2 st address) (\<lambda>_.
       bindE (writeAddress st address (replicate (unat (sizeAt st address)) 0)) (\<lambda>st1.
         Inr (st1\<lparr>pooledMemory := map_erase address (pooledMemory st1),
                  memory2 := release (memory2 st1) address (unat (sizeAt st address))\<rparr>)))"

definition repoolAddress :: "Allocator2 \<Rightarrow> Address \<Rightarrow> Address \<Rightarrow> SIZE_T \<Rightarrow> error + (Address \<times> Allocator2)" where
  "repoolAddress st newPointer address newSize =
     bindE (throwIfNotPooled2 st address) (\<lambda>_.
       bindE (poolAddress st newPointer newSize) (\<lambda>(newAddress, st1).
         bindE (readAddress st1 address (min (sizeAt st1 address) newSize)) (\<lambda>bytes.
           bindE (writeAddress st1 newAddress bytes) (\<lambda>st2.
             bindE (if newAddress \<noteq> address then unpoolAddress st2 address else Inr st2) (\<lambda>st3.
               Inr (newAddress, st3))))))"

subsection \<open>Reading and writing through one allocation\<close>

definition Allocator2_read_allocation :: "Allocator2 \<Rightarrow> ref \<Rightarrow> Address \<Rightarrow> SIZE_T \<Rightarrow> error + Data" where
  "Allocator2_read_allocation st r address n =
     bindE (Allocation2_throwIfNotInRange st r address n) (\<lambda>_. readAddress st address n)"

definition Allocator2_write_allocation :: "Allocator2 \<Rightarrow> ref \<Rightarrow> Address \<Rightarrow> Data \<Rightarrow> error + Allocator2" where
  "Allocator2_write_allocation st r destination data =
     bindE (Allocation2_throwIfNotInRange st r destination (of_nat (length data))) (\<lambda>_.
       writeAddress st destination data)"

text \<open>
  The branch of \<open>Allocator::read(address, size)\<close> and \<open>Allocator::write(address, data)\<close>
  taken when \<open>willSplit\<close> is false: the access goes through the temporary that \<open>find\<close>
  returns, which is destroyed after the call. (\<open>write\<close> names \<open>read\<close> there and tests an
  undeclared \<open>size\<close>; they are read as \<open>write\<close> and \<open>data.size()\<close>.) A null allocation
  fails its range check: with \<open>DeadAllocationException\<close> from \<open>start()\<close>, or at once when
  the size is 0.
\<close>

definition nullRangeError :: "Address \<Rightarrow> SIZE_T \<Rightarrow> error" where
  "nullRangeError address n =
     (if n = 0 then AddressOutOfRangeException address n else DeadAllocationException)"

definition read_found :: "Allocator2 \<Rightarrow> Address \<Rightarrow> SIZE_T \<Rightarrow> error + (Data \<times> Allocator2)" where
  "read_found st address n =
     bindE (Allocator2_find st address) (\<lambda>found.
       bindE (case found of
                None \<Rightarrow> Inl (nullRangeError address n)
              | Some r \<Rightarrow> Allocator2_read_allocation st r address n) (\<lambda>data.
         bindE (destroyFound st found) (\<lambda>st1. Inr (data, st1))))"

definition write_found :: "Allocator2 \<Rightarrow> Address \<Rightarrow> Data \<Rightarrow> error + Allocator2" where
  "write_found st address data =
     bindE (Allocator2_find st address) (\<lambda>found.
       bindE (case found of
                None \<Rightarrow> Inl (nullRangeError address (of_nat (length data)))
              | Some r \<Rightarrow> Allocator2_write_allocation st r address data) (\<lambda>st1.
         destroyFound st1 found))"

subsection \<open>The split engine\<close>

text \<open>
  One run of the body of the \<open>while\<close> loop of \<open>splitRead\<close> per equation; the iterator
  \<open>bindIter\<close> is the rest of the binding list. The loop ends with \<open>break\<close> when \<open>size\<close>
  has reached 0 or the next allocation does not start where this one ends, and
  through \<open>continue\<close> when the bindings are exhausted. It returns \<open>result\<close> and the
  \<open>size\<close> still outstanding.

  \<open>result.resize(result.size() + stackData.size())\<close> lets the vector grow by
  zero bytes, and \<open>MoveMemory(result.data() + result.size(), ...)\<close> then copies
  \<open>stackData\<close> to the position after the last element of the grown vector: it writes
  \<open>stackData.size()\<close> bytes past the end of the vector's storage. For a piece that is
  not empty this has no defined behaviour, and the walk ends there.

  \<open>nextAlloc->begin()\<close> names a function \<open>Allocation\<close> does not have; it is read as
  \<open>start()\<close>.
\<close>

fun splitRead_loop ::
  "Allocator2 \<Rightarrow> (Address \<times> ref list) list \<Rightarrow> Address \<Rightarrow> SIZE_T \<Rightarrow> Data \<Rightarrow> error + (Data \<times> SIZE_T)" where
  "splitRead_loop st [] addressIter n result = Inr (result, n)"
| "splitRead_loop st ((key, s) # rest) addressIter n result =
     bindE (firstOf s) (\<lambda>boundAlloc.
       bindE (Allocation2_inRange_address_size st boundAlloc addressIter n) (\<lambda>inRange.
         bindE (if inRange
                then bindE (Allocator2_read_allocation st boundAlloc addressIter n) (\<lambda>stackData.
                       Inr (stackData, 0))
                else bindE (Allocation2_end st boundAlloc) (\<lambda>e.
                       let newSize = e - addressIter
                       in bindE (Allocator2_read_allocation st boundAlloc addressIter newSize)
                            (\<lambda>stackData. Inr (stackData, n - newSize)))) (\<lambda>(stackData, n1).
           let result1 = result @ replicate (length stackData) 0
           in if stackData \<noteq> [] then Inl UndefinedBehaviour
              else if n1 = 0 then Inr (result1, n1)
              else case rest of
                     [] \<Rightarrow> Inr (result1, n1)
                   | (nextKey, nextSet) # rest1 \<Rightarrow>
                       bindE (firstOf nextSet) (\<lambda>nextAlloc.
                         bindE (Allocation2_end st boundAlloc) (\<lambda>e.
                           bindE (Allocation2_start st nextAlloc) (\<lambda>b.
                             if e \<noteq> b then Inr (result1, n1)
                             else splitRead_loop st rest nextKey n1 result1))))))"

text \<open>\<open>--bindIter\<close> at \<open>begin()\<close> has no defined behaviour.\<close>

definition walkStart :: "(Address \<times> ref list) list \<Rightarrow> Address \<Rightarrow> error + nat" where
  "walkStart m startAddress =
     (let i = lower_bound startAddress m
      in if i = length m \<or> fst (m ! i) \<noteq> startAddress
         then (if i = 0 then Inl UndefinedBehaviour else Inr (i - 1))
         else Inr i)"

text \<open>
  \<open>splitWrite\<close> walks the same way with a window into \<open>data\<close>; the range test uses the
  whole \<open>size\<close> in every round. \<open>BlockData\<close> beyond the end of \<open>data\<close> has no defined
  behaviour. The function ends with \<open>return result\<close> for a \<open>result\<close> it never declares;
  the model returns the allocator state.
\<close>

definition BlockData :: "Data \<Rightarrow> SIZE_T \<Rightarrow> SIZE_T \<Rightarrow> error + Data" where
  "BlockData data left n =
     (if unat left + unat n \<le> length data then Inr (take (unat n) (drop (unat left) data))
      else Inl UndefinedBehaviour)"

fun splitWrite_loop ::
  "Allocator2 \<Rightarrow> (Address \<times> ref list) list \<Rightarrow> Address \<Rightarrow> Data \<Rightarrow> SIZE_T \<Rightarrow> SIZE_T
     \<Rightarrow> error + (Allocator2 \<times> SIZE_T)" where
  "splitWrite_loop st [] addressIter data windowLeft windowRight = Inr (st, windowLeft)"
| "splitWrite_loop st ((key, s) # rest) addressIter data windowLeft windowRight =
     bindE (firstOf s) (\<lambda>boundAlloc.
       bindE (Allocation2_inRange_address_size st boundAlloc addressIter (of_nat (length data)))
         (\<lambda>inRange.
           bindE (if inRange then Inr (of_nat (length data))
                  else bindE (Allocation2_end st boundAlloc) (\<lambda>e.
                         Inr (windowRight + (e - addressIter)))) (\<lambda>right.
             bindE (BlockData data windowLeft (right - windowLeft)) (\<lambda>dataSlice.
               bindE (Allocator2_write_allocation st boundAlloc addressIter dataSlice) (\<lambda>st1.
                 if right = of_nat (length data) then Inr (st1, right)
                 else case rest of
                        [] \<Rightarrow> Inr (st1, right)
                      | (nextKey, nextSet) # rest1 \<Rightarrow>
                          bindE (firstOf nextSet) (\<lambda>nextAlloc.
                            bindE (Allocation2_end st1 boundAlloc) (\<lambda>e.
                              bindE (Allocation2_start st1 nextAlloc) (\<lambda>b.
                                if e \<noteq> b then Inr (st1, right)
                                else splitWrite_loop st1 rest nextKey data right right))))))))"

subsection \<open>The dispatch into the split engine\<close>

text \<open>
  \<open>Allocator::read(address, size)\<close> calls \<open>splitRead\<close> when \<open>willSplit\<close> is true, and
  \<open>splitRead\<close> calls \<open>read(startAddress, size)\<close> when \<open>willSplit\<close> is false, drops
  what it returns and goes on to its walk. The two are defined together, with the state
  that each call leaves. The recursion ends because \<open>read\<close> never reaches its call of
  \<open>splitRead\<close>: the temporary of \<open>throwIfNoAllocation\<close> has erased the address pool of
  the extent it found, so the allocation that \<open>willSplit\<close> looks up next is not valid
  any more and \<open>willSplit\<close> is false or throws.
\<close>

function Allocator2_read_state ::
    "Allocator2 \<Rightarrow> Address \<Rightarrow> SIZE_T \<Rightarrow> error + (Data \<times> Allocator2)"
  and Allocator2_splitRead_state ::
    "Allocator2 \<Rightarrow> Address \<Rightarrow> SIZE_T \<Rightarrow> error + (Data \<times> Allocator2)" where
  "Allocator2_read_state st address n =
     (case throwIfNoAllocation st address of
        Inl e \<Rightarrow> Inl e
      | Inr st1 \<Rightarrow>
          (case Allocator2_willSplit st1 address n of
             Inl e \<Rightarrow> Inl e
           | Inr will \<Rightarrow>
               (case afterFind st1 address of
                  Inl e \<Rightarrow> Inl e
                | Inr st2 \<Rightarrow>
                    if will then Allocator2_splitRead_state st2 address n
                    else read_found st2 address n)))"
| "Allocator2_splitRead_state st startAddress n =
     (case throwIfNoAllocation st startAddress of
        Inl e \<Rightarrow> Inl e
      | Inr st1 \<Rightarrow>
          (case Allocator2_willSplit st1 startAddress n of
             Inl e \<Rightarrow> Inl e
           | Inr will \<Rightarrow>
               (case afterFind st1 startAddress of
                  Inl e \<Rightarrow> Inl e
                | Inr st2 \<Rightarrow>
                    (case (if \<not> will
                           then (case Allocator2_read_state st2 startAddress n of
                                   Inl e \<Rightarrow> Inl e
                                 | Inr dropped \<Rightarrow> Inr (snd dropped))
                           else Inr st2) of
                       Inl e \<Rightarrow> Inl e
                     | Inr st3 \<Rightarrow>
                         bindE (walkStart (bindings2 st3) startAddress) (\<lambda>i.
                           bindE (splitRead_loop st3 (drop i (bindings2 st3)) startAddress n [])
                             (\<lambda>(result, n1).
                               if n1 \<noteq> 0 then Inl (SplitsExceededException startAddress n)
                               else Inr (result, st3)))))))"
  by pat_completeness auto
termination
proof (relation "measure (\<lambda>x. case x of Inl _ \<Rightarrow> 0 | Inr _ \<Rightarrow> Suc 0)")
  show "wf (measure (\<lambda>x. case x of Inl _ \<Rightarrow> 0 | Inr _ \<Rightarrow> Suc 0))" by simp
next
  fix st :: Allocator2 and address :: Address and n :: SIZE_T and st1 will st2
  assume check: "throwIfNoAllocation st address = Inr st1"
    and split: "Allocator2_willSplit st1 address n = Inr will" and will: will
  from check obtain found where f: "Allocator2_find st address = Inr found"
    and h: "(case found of None \<Rightarrow> Inr False
              | Some r \<Rightarrow> bindE (Allocation2_isNull st r) (\<lambda>null. Inr (\<not> null))) = Inr True"
    and d: "destroyFound st found = Inr st1"
    by (auto simp: throwIfNoAllocation_def hasAddress_def bindE_def split: sum.splits if_splits)
  from h obtain r where r: "found = Some r" by (cases found) auto
  from f r have v: "Allocation2_isValid st r = Inr True"
    by (auto simp: Allocator2_find_def copyOf_def bindE_def Let_def
        split: option.splits if_splits sum.splits)
  then have n: "Allocation2_isNull st r = Inr False" and ab: "Allocator2_isBound st r"
    by (auto simp: Allocation2_isValid_def Allocation2_isBound_def bindE_def
        split: if_splits option.splits sum.splits)
  from v obtain base where base: "associations st r = Some base" "isPooled2 st base"
    by (auto simp: Allocation2_isValid_def bindE_def split: if_splits option.splits sum.splits)
  from n obtain h where h: "objects2 st r = Some h" "allocator2 h"
    by (auto simp: Allocation2_isNull_def split: option.splits if_splits)
  from d r v n ab base have st1: "st1 = st\<lparr>addressPools := (addressPools st)(base := None)\<rparr>"
    by (simp add: destroyFound_def Allocation2_isBound_def throwIfNotPooled2_def bindE_def)
  have ab1: "Allocator2_isBound st1 r"
    using ab base by (simp add: Allocator2_isBound_def st1)
  have size0: "Allocation2_size st1 r = Inr 0"
    using h ab1 base
    by (simp add: Allocation2_size_def querySize_def throwIfNotBound2_def poolOf_def
        defaultAddressPool_def AddressPool_size_def st1 bindE_def)
  have null: "Allocation2_isNull st1 r = Inr True"
    using h base size0 by (simp add: Allocation2_isNull_def isAssociated_def st1 bindE_def)
  have invalid: "Allocation2_isValid st1 r = Inr False"
    using null by (simp add: Allocation2_isValid_def Allocation2_isBound_def bindE_def)
  have start: "Allocation2_inRange_address st1 r address = Inl ZeroSizeException"
    using invalid h base size0
    by (simp add: Allocation2_inRange_address_def Allocation2_start_def Allocation2_address_def
        Allocation2_throwIfInvalid_def st1 bindE_def)
  have "Allocator2_find st1 address = Inr None \<or> Allocator2_find st1 address = Inl ZeroSizeException"
  proof (cases "map_of (bindings2 st) address")
    case None
    with f r have "firstOf (snd (bindings2 st ! (upper_bound address (bindings2 st) - 1))) = Inr r"
      and "upper_bound address (bindings2 st) \<noteq> 0"
      by (auto simp: Allocator2_find_def copyOf_def bindE_def Let_def split: if_splits sum.splits)
    with None start show ?thesis by (simp add: Allocator2_find_def st1 bindE_def)
  next
    case (Some s)
    with f r have "firstOf s = Inr r"
      by (auto simp: Allocator2_find_def copyOf_def bindE_def split: if_splits sum.splits)
    with Some invalid show ?thesis by (simp add: Allocator2_find_def copyOf_def st1 bindE_def)
  qed
  then have "Allocator2_willSplit st1 address n \<noteq> Inr True"
    by (auto simp: Allocator2_willSplit_def bindE_def)
  with split will show "(Inr (st2, address, n), Inl (st, address, n))
          \<in> measure (\<lambda>x. case x of Inl _ \<Rightarrow> 0 | Inr _ \<Rightarrow> Suc 0)"
    by simp
next
  fix st :: Allocator2 and startAddress :: Address and n :: SIZE_T and st2
  show "(Inl (st2, startAddress, n), Inr (st, startAddress, n))
          \<in> measure (\<lambda>x. case x of Inl _ \<Rightarrow> 0 | Inr _ \<Rightarrow> Suc 0)"
    by simp
qed

definition Allocator2_read :: "Allocator2 \<Rightarrow> Address \<Rightarrow> SIZE_T \<Rightarrow> error + Data" where
  "Allocator2_read st address n =
     bindE (Allocator2_read_state st address n) (\<lambda>(data, st1). Inr data)"

definition Allocator2_splitRead :: "Allocator2 \<Rightarrow> Address \<Rightarrow> SIZE_T \<Rightarrow> error + Data" where
  "Allocator2_splitRead st startAddress n =
     bindE (Allocator2_splitRead_state st startAddress n) (\<lambda>(data, st1). Inr data)"

text \<open>
  \<open>Allocator::write(address, data)\<close> and \<open>splitWrite\<close> call each other in the same way.
\<close>

function Allocator2_write :: "Allocator2 \<Rightarrow> Address \<Rightarrow> Data \<Rightarrow> error + Allocator2"
  and Allocator2_splitWrite :: "Allocator2 \<Rightarrow> Address \<Rightarrow> Data \<Rightarrow> error + Allocator2" where
  "Allocator2_write st address data =
     (case throwIfNoAllocation st address of
        Inl e \<Rightarrow> Inl e
      | Inr st1 \<Rightarrow>
          (case Allocator2_willSplit st1 address (of_nat (length data)) of
             Inl e \<Rightarrow> Inl e
           | Inr will \<Rightarrow>
               (case afterFind st1 address of
                  Inl e \<Rightarrow> Inl e
                | Inr st2 \<Rightarrow>
                    if will then Allocator2_splitWrite st2 address data
                    else write_found st2 address data)))"
| "Allocator2_splitWrite st destination data =
     (case throwIfNoAllocation st destination of
        Inl e \<Rightarrow> Inl e
      | Inr st1 \<Rightarrow>
          (case Allocator2_willSplit st1 destination (of_nat (length data)) of
             Inl e \<Rightarrow> Inl e
           | Inr will \<Rightarrow>
               (case afterFind st1 destination of
                  Inl e \<Rightarrow> Inl e
                | Inr st2 \<Rightarrow>
                    (case (if \<not> will then Allocator2_write st2 destination data else Inr st2) of
                       Inl e \<Rightarrow> Inl e
                     | Inr st3 \<Rightarrow>
                         bindE (walkStart (bindings2 st3) destination) (\<lambda>i.
                           bindE (splitWrite_loop st3 (drop i (bindings2 st3)) destination data 0 0)
                             (\<lambda>(st4, windowLeft).
                               if windowLeft \<noteq> of_nat (length data)
                               then Inl (SplitsExceededException destination (of_nat (length data)))
                               else Inr st4))))))"
  by pat_completeness auto
termination
proof (relation "measure (\<lambda>x. case x of Inl _ \<Rightarrow> 0 | Inr _ \<Rightarrow> Suc 0)")
  show "wf (measure (\<lambda>x. case x of Inl _ \<Rightarrow> 0 | Inr _ \<Rightarrow> Suc 0))" by simp
next
  fix st :: Allocator2 and address :: Address and data :: Data and st1 will st2
  assume check: "throwIfNoAllocation st address = Inr st1"
    and split: "Allocator2_willSplit st1 address (of_nat (length data)) = Inr will" and will: will
  from check obtain found where f: "Allocator2_find st address = Inr found"
    and h: "(case found of None \<Rightarrow> Inr False
              | Some r \<Rightarrow> bindE (Allocation2_isNull st r) (\<lambda>null. Inr (\<not> null))) = Inr True"
    and d: "destroyFound st found = Inr st1"
    by (auto simp: throwIfNoAllocation_def hasAddress_def bindE_def split: sum.splits if_splits)
  from h obtain r where r: "found = Some r" by (cases found) auto
  from f r have v: "Allocation2_isValid st r = Inr True"
    by (auto simp: Allocator2_find_def copyOf_def bindE_def Let_def
        split: option.splits if_splits sum.splits)
  then have n: "Allocation2_isNull st r = Inr False" and ab: "Allocator2_isBound st r"
    by (auto simp: Allocation2_isValid_def Allocation2_isBound_def bindE_def
        split: if_splits option.splits sum.splits)
  from v obtain base where base: "associations st r = Some base" "isPooled2 st base"
    by (auto simp: Allocation2_isValid_def bindE_def split: if_splits option.splits sum.splits)
  from n obtain h where h: "objects2 st r = Some h" "allocator2 h"
    by (auto simp: Allocation2_isNull_def split: option.splits if_splits)
  from d r v n ab base have st1: "st1 = st\<lparr>addressPools := (addressPools st)(base := None)\<rparr>"
    by (simp add: destroyFound_def Allocation2_isBound_def throwIfNotPooled2_def bindE_def)
  have ab1: "Allocator2_isBound st1 r"
    using ab base by (simp add: Allocator2_isBound_def st1)
  have size0: "Allocation2_size st1 r = Inr 0"
    using h ab1 base
    by (simp add: Allocation2_size_def querySize_def throwIfNotBound2_def poolOf_def
        defaultAddressPool_def AddressPool_size_def st1 bindE_def)
  have null: "Allocation2_isNull st1 r = Inr True"
    using h base size0 by (simp add: Allocation2_isNull_def isAssociated_def st1 bindE_def)
  have invalid: "Allocation2_isValid st1 r = Inr False"
    using null by (simp add: Allocation2_isValid_def Allocation2_isBound_def bindE_def)
  have start: "Allocation2_inRange_address st1 r address = Inl ZeroSizeException"
    using invalid h base size0
    by (simp add: Allocation2_inRange_address_def Allocation2_start_def Allocation2_address_def
        Allocation2_throwIfInvalid_def st1 bindE_def)
  have "Allocator2_find st1 address = Inr None \<or> Allocator2_find st1 address = Inl ZeroSizeException"
  proof (cases "map_of (bindings2 st) address")
    case None
    with f r have "firstOf (snd (bindings2 st ! (upper_bound address (bindings2 st) - 1))) = Inr r"
      and "upper_bound address (bindings2 st) \<noteq> 0"
      by (auto simp: Allocator2_find_def copyOf_def bindE_def Let_def split: if_splits sum.splits)
    with None start show ?thesis by (simp add: Allocator2_find_def st1 bindE_def)
  next
    case (Some s)
    with f r have "firstOf s = Inr r"
      by (auto simp: Allocator2_find_def copyOf_def bindE_def split: if_splits sum.splits)
    with Some invalid show ?thesis by (simp add: Allocator2_find_def copyOf_def st1 bindE_def)
  qed
  then have "Allocator2_willSplit st1 address (of_nat (length data)) \<noteq> Inr True"
    by (auto simp: Allocator2_willSplit_def bindE_def)
  with split will show "(Inr (st2, address, data), Inl (st, address, data))
          \<in> measure (\<lambda>x. case x of Inl _ \<Rightarrow> 0 | Inr _ \<Rightarrow> Suc 0)"
    by simp
next
  fix st :: Allocator2 and destination :: Address and data :: Data and st2
  show "(Inl (st2, destination, data), Inr (st, destination, data))
          \<in> measure (\<lambda>x. case x of Inl _ \<Rightarrow> 0 | Inr _ \<Rightarrow> Suc 0)"
    by simp
qed

text \<open>
  \<open>Allocation::read(const Address &, SIZE_T)\<close> calls \<open>throwIfNotValid\<close>, which is
  \<open>throwIfInvalid\<close> under a name the class does not declare.
\<close>

definition Allocation2_read_address :: "Allocator2 \<Rightarrow> ref \<Rightarrow> Address \<Rightarrow> SIZE_T \<Rightarrow> error + Data" where
  "Allocation2_read_address st r address n =
     bindE (Allocation2_throwIfInvalid st r) (\<lambda>_.
       bindE (Allocation2_throwIfNotInRange_address st r address) (\<lambda>_.
         bindE (Allocator2_willSplit st address n) (\<lambda>will.
           bindE (afterFind st address) (\<lambda>st1.
             if will then Allocator2_splitRead st1 address n
             else Allocator2_read_allocation st1 r address n))))"

definition Allocation2_write_address :: "Allocator2 \<Rightarrow> ref \<Rightarrow> Address \<Rightarrow> Data \<Rightarrow> error + Allocator2" where
  "Allocation2_write_address st r destAddress data =
     bindE (Allocation2_throwIfInvalid st r) (\<lambda>_.
       bindE (Allocation2_throwIfNotInRange_address st r destAddress) (\<lambda>_.
         bindE (Allocator2_willSplit st destAddress (of_nat (length data))) (\<lambda>will.
           bindE (afterFind st destAddress) (\<lambda>st1.
             if will then Allocator2_splitWrite st1 destAddress data
             else Allocator2_write_allocation st1 r destAddress data))))"

definition Allocation2_read :: "Allocator2 \<Rightarrow> ref \<Rightarrow> SIZE_T \<Rightarrow> SIZE_T \<Rightarrow> error + Data" where
  "Allocation2_read st r offset n =
     (case bindE (Allocation2_address st r offset)
             (\<lambda>address. Allocation2_read_address st r address n) of
        Inl (AddressOutOfRangeException p k) \<Rightarrow> Inl (OffsetOutOfRangeException offset n)
      | other \<Rightarrow> other)"

definition Allocation2_write :: "Allocator2 \<Rightarrow> ref \<Rightarrow> SIZE_T \<Rightarrow> Data \<Rightarrow> error + Allocator2" where
  "Allocation2_write st r offset data =
     (case bindE (Allocation2_address st r offset)
             (\<lambda>address. Allocation2_write_address st r address data) of
        Inl (AddressOutOfRangeException p k) \<Rightarrow>
          (case Allocation2_size st r of
             Inl e \<Rightarrow> Inl e
           | Inr n \<Rightarrow> Inl (OffsetOutOfRangeException offset n))
      | other \<Rightarrow> other)"

subsection \<open>Binding, rebinding and unbinding\<close>

definition bindingSet2 :: "Allocator2 \<Rightarrow> Address \<Rightarrow> ref list" where
  "bindingSet2 st address = (case map_of (bindings2 st) address of None \<Rightarrow> [] | Some s \<Rightarrow> s)"

definition Allocator2_bind :: "Allocator2 \<Rightarrow> ref \<Rightarrow> Address \<Rightarrow> error + Allocator2" where
  "Allocator2_bind st r address =
     bindE (throwIfNotPooled2 st address) (\<lambda>_.
       bindE (throwIfBound2 st r) (\<lambda>_.
         case objects2 st r of
           None \<Rightarrow> Inl UndefinedBehaviour
         | Some h \<Rightarrow>
             Inr (st\<lparr>bindings2 := map_set address (set_insert r (bindingSet2 st address)) (bindings2 st),
                     objects2 := (objects2 st)(r \<mapsto> h\<lparr>allocator2 := True\<rparr>),
                     addressPools :=
                       (if addressPools st address = None
                        then (addressPools st)(address \<mapsto>
                               \<lparr>minLabel = address, maxLabel = address + sizeAt st address\<rparr>)
                        else addressPools st),
                     associations := (associations st)(r \<mapsto> address)\<rparr>)))"

text \<open>
  \<open>rebind\<close> calls \<open>throwIfNotAssociated\<close>, which the class does not define; a bound
  allocation is associated, so the call is taken to pass. \<open>unbind\<close> reads
  \<open>allocation->pointer\<close>, a member that \<open>part_002\<close> no longer has: it is read as the
  associated address. \<open>oldAddress.moveIdentifier\<close> acts on the local copy of an
  \<open>Address\<close>, whose class is not among the sources; it changes none of the allocator's
  tables. \<open>unpool\<close> is the backing store's \<open>unpoolAddress\<close>.
\<close>

definition Allocator2_rebind :: "Allocator2 \<Rightarrow> ref \<Rightarrow> Address \<Rightarrow> error + Allocator2" where
  "Allocator2_rebind st r newAddress =
     (if \<not> Allocator2_isBound st r then Allocator2_bind st r newAddress
      else bindE (Allocation2_address st r 0) (\<lambda>current.
             bindE (throwIfNotPooled2 st current) (\<lambda>_.
               bindE (throwIfNotPooled2 st newAddress) (\<lambda>_.
                 case (associations st r, objects2 st r) of
                   (Some oldAddress, Some h) \<Rightarrow>
                     let b1 = map_set newAddress (set_insert r (bindingSet2 st newAddress))
                                (bindings2 st);
                         st1 = st\<lparr>bindings2 := b1\<rparr>;
                         b2 = map_set oldAddress (set_erase r (bindingSet2 st1 oldAddress)) b1;
                         st2 = st\<lparr>bindings2 := b2,
                                  objects2 := (objects2 st)(r \<mapsto> h\<lparr>allocator2 := True\<rparr>),
                                  associations := (associations st)(r \<mapsto> newAddress)\<rparr>
                     in if length (bindingSet2 st2 oldAddress) = 0
                        then unpoolAddress (st2\<lparr>bindings2 := map_erase oldAddress b2\<rparr>) oldAddress
                        else Inr st2
                 | _ \<Rightarrow> Inl UndefinedBehaviour))))"



text \<open>
  \<open>Allocation::copy\<close> asks the other allocation for \<open>baseAddress()\<close>, which is
  \<open>Allocator::addressOf\<close>.
\<close>

definition Allocation2_copy :: "Allocator2 \<Rightarrow> ref \<Rightarrow> ref \<Rightarrow> error + Allocator2" where
  "Allocation2_copy st r other =
     bindE (Allocation2_throwIfInvalid st other) (\<lambda>_.
       case (objects2 st r, objects2 st other) of
         (Some h, Some g) \<Rightarrow>
           let st1 = st\<lparr>objects2 := (objects2 st)(r \<mapsto> h\<lparr>allocator2 := allocator2 g\<rparr>)\<rparr>
           in bindE (Allocation2_isBound st1 r) (\<lambda>bound.
                bindE (addressOf st1 other) (\<lambda>base.
                  if bound then Allocator2_rebind st1 r base else Allocator2_bind st1 r base))
       | _ \<Rightarrow> Inl UndefinedBehaviour)"

definition emptyAllocator2 :: Allocator2 where
  "emptyAllocator2 = \<lparr>split = True, pooledMemory = [], bindings2 = [], associations = Map.empty,
                       addressPools = Map.empty, objects2 = Map.empty, memory2 = (\<lambda>_. None)\<rparr>"

section \<open>Well-formed allocator states\<close>

text \<open>
  The tables of the pointer-based allocator are consistent when every allocation listed
  in a binding set exists and points at that set's address, and no set lists an
  allocation twice (a \<open>std::set\<close> cannot).
\<close>

definition bindingsAgree :: "Allocator \<Rightarrow> bool" where
  "bindingsAgree st \<longleftrightarrow>
     (\<forall>p s. bindings st p = Some s \<longrightarrow>
        distinct s \<and> (\<forall>r \<in> set s. \<exists>a. objects st r = Some a \<and> pointer a = p))"

text \<open>
  Every pooled extent is a block of accessible memory that does not wrap around the end
  of the address space: what \<open>new BYTE[size]\<close> hands out.
\<close>

definition poolBacked :: "Allocator \<Rightarrow> bool" where
  "poolBacked st \<longleftrightarrow>
     (\<forall>p n. memoryPool st p = Some n \<longrightarrow>
        unat p + unat n < 2 ^ 64 \<and> accessible (memory st) p (unat n))"

section \<open>Example states\<close>

text \<open>
  The state reached from an empty allocator when a handle constructed by
  \<open>Allocation(Allocator *)\<close> allocates four bytes and \<open>new\<close> returns the address 4096.
\<close>

definition exampleAllocator :: Allocator where
  "exampleAllocator =
     \<lparr>memoryPool = [4096 \<mapsto> 4], bindings = [4096 \<mapsto> [1]], allocations = [],
      objects = [1 \<mapsto> \<lparr>allocator = True, pointer = 4096, size' = 4\<rparr>],
      memory = store (\<lambda>_. None) 4096 [0, 0, 0, 0]\<rparr>"

text \<open>
  The state reached from an empty allocator when \<open>Allocator::allocate(4)\<close> creates the
  allocation 1 at address 4096 and a second handle 2 is made an alias by \<open>copy\<close>.
\<close>

definition sharedAllocator :: Allocator where
  "sharedAllocator =
     \<lparr>memoryPool = [4096 \<mapsto> 4], bindings = [4096 \<mapsto> [1, 2]], allocations = [1],
      objects = [1 \<mapsto> \<lparr>allocator = True, pointer = 4096, size' = 4\<rparr>,
                 2 \<mapsto> \<lparr>allocator = True, pointer = 4096, size' = 4\<rparr>],
      memory = store (\<lambda>_. None) 4096 [0, 0, 0, 0]\<rparr>"

text \<open>
  The layout of the split-read scenarios: extent A holds the bytes 100 to 115 at the
  addresses 0 to 15 and is bound by allocation 11; extent B holds the bytes 200 to 207
  at the addresses 16 to 23 and is bound by allocation 12. \<open>threeExtents\<close> adds an
  extent C at the addresses 30 to 39, bound by allocation 13, and leaves the addresses
  24 to 29 unpooled.
\<close>

definition twoExtents :: Allocator2 where
  "twoExtents =
     \<lparr>split = True,
      pooledMemory = [(0, 16), (16, 8)],
      bindings2 = [(0, [11]), (16, [12])],
      associations = [11 \<mapsto> 0, 12 \<mapsto> 16],
      addressPools = [0 \<mapsto> \<lparr>minLabel = 0, maxLabel = 16\<rparr>,
                      16 \<mapsto> \<lparr>minLabel = 16, maxLabel = 24\<rparr>],
      objects2 = [11 \<mapsto> \<lparr>allocator2 = True\<rparr>, 12 \<mapsto> \<lparr>allocator2 = True\<rparr>],
      memory2 = map_of
        [(0, 100), (1, 101), (2, 102), (3, 103), (4, 104), (5, 105), (6, 106), (7, 107),
         (8, 108), (9, 109), (10, 110), (11, 111), (12, 112), (13, 113), (14, 114), (15, 115),
         (16, 200), (17, 201), (18, 202), (19, 203), (20, 204), (21, 205), (22, 206), (23, 207)]\<rparr>"

definition threeExtents :: Allocator2 where
  "threeExtents =
     twoExtents\<lparr>
      pooledMemory := [(0, 16), (16, 8), (30, 10)],
      bindings2 := [(0, [11]), (16, [12]), (30, [13])],
      associations := [11 \<mapsto> 0, 12 \<mapsto> 16, 13 \<mapsto> 30],
      addressPools := [0 \<mapsto> \<lparr>minLabel = 0, maxLabel = 16\<rparr>,
                       16 \<mapsto> \<lparr>minLabel = 16, maxLabel = 24\<rparr>,
                       30 \<mapsto> \<lparr>minLabel = 30, maxLabel = 40\<rparr>],
      objects2 := [11 \<mapsto> \<lparr>allocator2 = True\<rparr>, 12 \<mapsto> \<lparr>allocator2 = True\<rparr>,
                   13 \<mapsto> \<lparr>allocator2 = True\<rparr>],
      memory2 := (\<lambda>x. if 30 \<le> x \<and> x < 40 then Some 50 else memory2 twoExtents x)\<rparr>"

text \<open>
  Allocation \<open>r\<close> is validly bound at the address \<open>p\<close> with size \<open>n\<close>: it has an
  allocator, is associated with \<open>p\<close> and listed in the binding set of \<open>p\<close>, the
  address pool of \<open>p\<close> spans \<open>n\<close> labels from \<open>p\<close>, and \<open>p\<close> is pooled.
\<close>

definition validAt :: "Allocator2 \<Rightarrow> ref \<Rightarrow> Address \<Rightarrow> SIZE_T \<Rightarrow> bool" where
  "validAt st r p n \<longleftrightarrow>
     (case objects2 st r of None \<Rightarrow> False | Some h \<Rightarrow> allocator2 h)
     \<and> associations st r = Some p
     \<and> (case map_of (bindings2 st) p of None \<Rightarrow> False | Some s \<Rightarrow> r \<in> set s)
     \<and> addressPools st p = Some \<lparr>minLabel = p, maxLabel = p + n\<rparr>
     \<and> n \<noteq> 0
     \<and> isPooled2 st p"


text \<open>
  The result of a writing routine with the \<open>split\<close> flag of the final state set to
  \<open>b\<close>: the one field in which two runs that differ only in the flag may differ.
\<close>

definition withSplit :: "bool \<Rightarrow> error + Allocator2 \<Rightarrow> error + Allocator2" where
  "withSplit b res = (case res of Inl e \<Rightarrow> Inl e | Inr st \<Rightarrow> Inr (st\<lparr>split := b\<rparr>))"

definition withSplit2 :: "bool \<Rightarrow> error + (Allocator2 \<times> 'a) \<Rightarrow> error + (Allocator2 \<times> 'a)" where
  "withSplit2 b res = (case res of Inl e \<Rightarrow> Inl e | Inr (st, x) \<Rightarrow> Inr (st\<lparr>split := b\<rparr>, x))"


text \<open>
  Two allocations, 21 and 22, aliasing one four-byte extent at the address 4096, beside
  a second pooled extent at 8192 that nothing is bound to yet; and the state after
  allocation 21 has been unbound.
\<close>

definition aliasedExtent :: Allocator2 where
  "aliasedExtent =
     \<lparr>split = True,
      pooledMemory = [(4096, 4), (8192, 4)],
      bindings2 = [(4096, [21, 22])],
      associations = [21 \<mapsto> 4096, 22 \<mapsto> 4096],
      addressPools = [4096 \<mapsto> \<lparr>minLabel = 4096, maxLabel = 4100\<rparr>],
      objects2 = [21 \<mapsto> \<lparr>allocator2 = True\<rparr>, 22 \<mapsto> \<lparr>allocator2 = True\<rparr>],
      memory2 = store (store (\<lambda>_. None) 4096 [0, 0, 0, 0]) 8192 [0, 0, 0, 0]\<rparr>"

definition afterFirstRelease :: Allocator2 where
  "afterFirstRelease =
     aliasedExtent\<lparr>addressPools := Map.empty,
                    associations := [22 \<mapsto> 4096],
                    bindings2 := [(4096, [22])]\<rparr>"

text \<open>
  No address of the block of \<open>n\<close> bytes at \<open>p\<close> lies in the block of \<open>k\<close> bytes at \<open>q\<close>:
  what holds between a block that \<open>new\<close> has just returned and every block still in
  use.
\<close>

definition disjointBlocks :: "LPVOID \<Rightarrow> nat \<Rightarrow> LPVOID \<Rightarrow> nat \<Rightarrow> bool" where
  "disjointBlocks p n q k = list_all (\<lambda>i. \<not> unat (p + of_nat i - q) < k) [0..<n]"

text \<open>
  The four-byte allocation of \<open>exampleAllocator\<close> after the bytes 10, 20, 30, 40 have
  been written to it; an allocator with one pooled extent of the same contents that no
  allocation is bound to; and a local backing store with one such extent.
\<close>

definition filledAllocator :: Allocator where
  "filledAllocator = exampleAllocator\<lparr>memory := store (\<lambda>_. None) 4096 [10, 20, 30, 40]\<rparr>"

definition pooledOnly :: Allocator where
  "pooledOnly = emptyAllocator\<lparr>memoryPool := [4096 \<mapsto> 4],
                               memory := store (\<lambda>_. None) 4096 [10, 20, 30, 40]\<rparr>"

definition filledPool :: Allocator2 where
  "filledPool = emptyAllocator2\<lparr>pooledMemory := [(4096, 4)],
                                memory2 := store (\<lambda>_. None) 4096 [10, 20, 30, 40]\<rparr>"

text \<open>
  Well-formed states of the allocator of \<open>part_002\<close>. The size of the extent bound at
  \<open>k\<close> is the size of its address pool, as \<open>Allocator::querySize\<close> reads it. An extent
  covers an address that lies between its start and its exclusive end. In a well-formed
  state both maps are in strictly ascending key order (they are \<open>std::map\<close>s), every
  binding set has a first allocation that is validly bound at its key, the extent
  neither wraps around the address space nor lacks memory, and no pooled extent starts
  inside a bound one.
\<close>

definition extent :: "Allocator2 \<Rightarrow> Address \<Rightarrow> SIZE_T" where
  "extent st k = AddressPool_size (poolOf st k)"

definition covers :: "Allocator2 \<Rightarrow> Address \<Rightarrow> Address \<Rightarrow> bool" where
  "covers st k address \<longleftrightarrow>
     unat k \<le> unat address \<and> unat address < unat k + unat (extent st k)"

definition wellBound :: "Allocator2 \<Rightarrow> Address \<times> ref list \<Rightarrow> bool" where
  "wellBound st b =
     (case snd b of
        [] \<Rightarrow> False
      | r # rs \<Rightarrow>
          validAt st r (fst b) (extent st (fst b))
          \<and> unat (fst b) + unat (extent st (fst b)) < 2 ^ 64
          \<and> accessible (memory2 st) (fst b) (unat (extent st (fst b)))
          \<and> list_all (\<lambda>q. fst b < fst q \<longrightarrow> unat (fst b) + unat (extent st (fst b)) \<le> unat (fst q))
               (pooledMemory st))"

definition wellFormed2 :: "Allocator2 \<Rightarrow> bool" where
  "wellFormed2 st \<longleftrightarrow>
     sorted_wrt (<) (map fst (bindings2 st))
     \<and> sorted_wrt (<) (map fst (pooledMemory st))
     \<and> list_all (wellBound st) (bindings2 st)"

section \<open>Properties\<close>

subsection \<open>Auxiliary facts\<close>

declare splitRead_loop.simps [simp del] splitWrite_loop.simps [simp del]
declare Allocator2_read_state.simps [simp del] Allocator2_splitRead_state.simps [simp del]
declare Allocator2_write.simps [simp del] Allocator2_splitWrite.simps [simp del]

lemma bindE_simps [simp]: "bindE (Inl e) f = Inl e" "bindE (Inr x) f = f x"
  by (simp_all add: bindE_def)

lemma bindE_Inr: "bindE m f = Inr y \<longleftrightarrow> (\<exists>x. m = Inr x \<and> f x = Inr y)"
  by (cases m) simp_all

lemma unat_of_nat64: "i < 2 ^ 64 \<Longrightarrow> unat (of_nat i :: 64 word) = i"
  by (simp add: unat_of_nat)

lemma store_at:
  "i < length bs \<Longrightarrow> length bs \<le> 2 ^ 64 \<Longrightarrow> store m p bs (p + of_nat i) = Some (bs ! i)"
  by (simp add: store_def unat_of_nat64)

lemma load_store: "length bs \<le> 2 ^ 64 \<Longrightarrow> load (store m p bs) p (length bs) = bs"
  by (rule nth_equalityI) (simp_all add: load_def store_at)

lemma accessible_iff: "accessible m p n \<longleftrightarrow> (\<forall>i<n. m (p + of_nat i) \<noteq> None)"
  by (auto simp: accessible_def list_all_iff)

lemma accessible_store: "length bs \<le> 2 ^ 64 \<Longrightarrow> accessible (store m p bs) p (length bs)"
  by (simp add: accessible_iff store_at)

lemma inRange_whole:
  assumes "pointer a \<noteq> 0" "size' a \<noteq> 0" "unat (pointer a) + unat (size' a) < 2 ^ 64"
  shows "Allocation_inRange_address_size a (pointer a) (size' a)"
proof -
  have "pointer a \<le> pointer a + size' a"
    using assms(3) by (simp add: no_olen_add_nat)
  with assms show ?thesis
    by (simp add: Allocation_inRange_address_size_def Allocation_inRange_address_def Let_def)
qed

lemma replicate4: "replicate 4 x = [x, x, x, x]"
  by (simp add: eval_nat_numeral)

lemma exampleAllocator_reachable:
  "Allocation_allocate (newHandle emptyAllocator 1) 1 4096 4 = Inr exampleAllocator"
  by (simp add: Allocation_allocate_def newHandle_def emptyAllocator_def isPooled_def
      Allocator_pool_def Allocator_bind_def throwIfNotPooled_def throwIfBound_def
      Allocator_isBound_def bindingSet_def set_insert_def exampleAllocator_def replicate4)

lemma exampleAllocator_backed: "poolBacked exampleAllocator"
  by (auto simp: poolBacked_def exampleAllocator_def accessible_iff store_def unat_of_nat64
      split: if_splits)

lemma exampleAllocator_bound: "Allocation_isBound exampleAllocator 1"
  by (simp add: Allocation_isBound_def Allocation_isValid_def Allocator_isBound_def
      isPooled_def exampleAllocator_def)



lemma unbind_erases:
  assumes b: "bindings st p = Some (r # rs)" and d: "distinct (r # rs)"
    and obj: "objects st r = Some a" and pa: "pointer a = p"
    and pool: "memoryPool st p = Some n" and acc: "accessible (memory st) p (unat n)"
  shows "\<exists>st1. Allocator_unbind st r = Inr st1 \<and> r \<notin> set (bindingSet st1 p)"
proof -
  have erase: "set_erase r (bindingSet st p) = rs"
    using b d by (simp add: bindingSet_def set_erase_def)
  have bound: "Allocator_isBound st r"
    using obj pa b by (simp add: Allocator_isBound_def)
  have pooled: "isPooled st p" using pool by (simp add: isPooled_def)
  have rn: "r \<notin> set rs" using d by simp
  show ?thesis
  proof (cases "rs = []")
    case True
    then show ?thesis
      using obj pa erase bound pooled pool acc
      by (simp add: Allocator_unbind_def throwIfNotBound_def throwIfNotPooled_def Let_def
          isPooled_def unpool_release_def bindingSet_def)
  next
    case False
    then show ?thesis
      using obj pa erase bound pooled rn
      by (simp add: Allocator_unbind_def throwIfNotBound_def throwIfNotPooled_def Let_def
          bindingSet_def)
  qed
qed

lemma unpool_undefined:
  assumes b: "bindings st p = Some (r # rs)" and d: "distinct (r # rs)"
    and obj: "objects st r = Some a" and pa: "pointer a = p"
    and pool: "memoryPool st p = Some n" and acc: "accessible (memory st) p (unat n)"
  shows "Allocator_unpool st p = Inl UndefinedBehaviour"
proof -
  from unbind_erases [OF assms] obtain st1
    where "Allocator_unbind st r = Inr st1" "r \<notin> set (bindingSet st1 p)" by blast
  then show ?thesis
    using b pool by (simp add: Allocator_unpool_def throwIfNotPooled_def isPooled_def)
qed

lemma sharedAllocator_reachable:
  "bindE (Allocator_allocate emptyAllocator 1 4096 4)
     (\<lambda>(r, st). Allocation_copy (newHandle st 2) 2 r) = Inr sharedAllocator"
  by (simp add: Allocator_allocate_def Allocation_copy_def newHandle_def emptyAllocator_def
      isPooled_def Allocator_pool_def Allocator_bind_def throwIfNotPooled_def throwIfBound_def
      Allocator_isBound_def bindingSet_def set_insert_def sharedAllocator_def replicate4
      Allocation_throwIfInvalid_def Allocation_isValid_def Allocation_isBound_def Let_def
      fun_upd_twist)

lemma sharedAllocator_backed: "poolBacked sharedAllocator"
  by (auto simp: poolBacked_def sharedAllocator_def accessible_iff store_def unat_of_nat64
      split: if_splits)

lemma sharedAllocator_agree: "bindingsAgree sharedAllocator"
  by (auto simp: bindingsAgree_def sharedAllocator_def split: if_splits)


subsection \<open>Facts about validly bound allocations of \<open>part_002\<close>\<close>

lemma validAt_facts:
  assumes "validAt st r p n"
  shows "Allocator2_isBound st r"
    and "Allocation2_size st r = Inr n"
    and "Allocation2_isNull st r = Inr False"
    and "Allocation2_isBound st r = Inr True"
    and "Allocation2_isValid st r = Inr True"
    and "Allocation2_throwIfInvalid st r = Inr ()"
    and "Allocation2_address st r offset = Inr (p + offset)"
    and "Allocation2_start st r = Inr p"
    and "Allocation2_end st r = Inr (p + n)"
proof -
  from assms obtain h s where h: "objects2 st r = Some h" "allocator2 h"
    and a: "associations st r = Some p" and b: "map_of (bindings2 st) p = Some s" "r \<in> set s"
    and pl: "addressPools st p = Some \<lparr>minLabel = p, maxLabel = p + n\<rparr>" and n: "n \<noteq> 0"
    and pooled: "isPooled2 st p"
    by (auto simp: validAt_def split: option.splits)
  show 1: "Allocator2_isBound st r" using a b by (simp add: Allocator2_isBound_def)
  show 2: "Allocation2_size st r = Inr n"
    using h a pl 1 by (simp add: Allocation2_size_def querySize_def throwIfNotBound2_def
        poolOf_def AddressPool_size_def)
  show 3: "Allocation2_isNull st r = Inr False"
    using h a 2 n by (simp add: Allocation2_isNull_def isAssociated_def)
  show 4: "Allocation2_isBound st r = Inr True" using 3 1 by (simp add: Allocation2_isBound_def)
  show 5: "Allocation2_isValid st r = Inr True" using 4 a pooled by (simp add: Allocation2_isValid_def)
  show 6: "Allocation2_throwIfInvalid st r = Inr ()" using 5 by (simp add: Allocation2_throwIfInvalid_def)
  show 7: "Allocation2_address st r offset = Inr (p + offset)" for offset
    using 6 1 a by (simp add: Allocation2_address_def Allocator2_address_def throwIfNotBound2_def)
  show "Allocation2_start st r = Inr p" using 7 [of 0] by (simp add: Allocation2_start_def)
  show "Allocation2_end st r = Inr (p + n)" using 7 2 by (simp add: Allocation2_end_def)
qed

lemma validAt_inRange:
  assumes "validAt st r p n"
  shows "Allocation2_inRange_address st r x = Inr (p \<le> x \<and> x < p + n)"
    and "Allocation2_inRange_address_size st r x k =
           Inr (k \<noteq> 0 \<and> p \<le> x \<and> x < p + n \<and> p \<le> x + k - 1 \<and> x + k - 1 < p + n)"
proof -
  show 1: "Allocation2_inRange_address st r x = Inr (p \<le> x \<and> x < p + n)" for x
    using validAt_facts(8,9) [OF assms] by (simp add: Allocation2_inRange_address_def)
  show "Allocation2_inRange_address_size st r x k =
           Inr (k \<noteq> 0 \<and> p \<le> x \<and> x < p + n \<and> p \<le> x + k - 1 \<and> x + k - 1 < p + n)"
    by (auto simp: Allocation2_inRange_address_size_def 1)
qed


subsection \<open>Evaluation of the split-read scenarios\<close>

lemma twoExtents_valid: "validAt twoExtents 11 0 16" "validAt twoExtents 12 16 8"
  by (simp_all add: validAt_def twoExtents_def isPooled2_def)

lemma twoExtents_bindings: "bindings2 twoExtents = [(0, [11]), (16, [12])]"
  by (simp add: twoExtents_def)

lemma twoExtents_pool:
  "upper_bound 10 (pooledMemory twoExtents) = 1"
  "pooledMemory twoExtents ! Suc 0 = (16, 8)"
  "length (pooledMemory twoExtents) = 2"
  by (simp_all add: twoExtents_def upper_bound_def)

lemma twoExtents_find: "Allocator2_find twoExtents 10 = Inr (Some 11)"
  by (simp add: Allocator2_find_def twoExtents_bindings upper_bound_def firstOf_def copyOf_def
      validAt_inRange(1) [OF twoExtents_valid(1)] validAt_facts(5) [OF twoExtents_valid(1)])

lemma upt6: "[0..<6] = [0, 1, 2, 3, 4, 5]"
  by (simp add: upt_rec)

lemma upt4: "[0..<4] = [0, 1, 2, 3]"
  by (simp add: upt_rec)

lemma twoExtents_read_A:
  "Allocator2_read_allocation twoExtents 11 10 6 = Inr [110, 111, 112, 113, 114, 115]"
  by (simp add: Allocator2_read_allocation_def Allocation2_throwIfNotInRange_def
      validAt_inRange(2) [OF twoExtents_valid(1)] readAddress_def CopyData_out_def
      accessible_def load_def upt6)
    (simp add: twoExtents_def)

lemma twoExtents_read_B:
  "Allocator2_read_allocation twoExtents 12 16 4 = Inr [200, 201, 202, 203]"
  by (simp add: Allocator2_read_allocation_def Allocation2_throwIfNotInRange_def
      validAt_inRange(2) [OF twoExtents_valid(2)] readAddress_def CopyData_out_def
      accessible_def load_def upt4)
    (simp add: twoExtents_def)


subsection \<open>The copy that \<open>find\<close> returns and what its destructor leaves\<close>

lemma validAt_copy:
  assumes "validAt st r p n"
  shows "copyOf st r = Inr (Some r)"
    and "destroyFound st (Some r) = Inr (st\<lparr>addressPools := (addressPools st)(p := None)\<rparr>)"
proof -
  show "copyOf st r = Inr (Some r)"
    using validAt_facts(5) [OF assms] by (simp add: copyOf_def)
  from assms have "associations st r = Some p" "isPooled2 st p" by (simp_all add: validAt_def)
  then show "destroyFound st (Some r) = Inr (st\<lparr>addressPools := (addressPools st)(p := None)\<rparr>)"
    using validAt_facts(4) [OF assms] by (simp add: destroyFound_def throwIfNotPooled2_def)
qed

lemma check_erases_pool:
  assumes "throwIfNoAllocation st a = Inr st1"
  shows "\<exists>r base. Allocator2_find st a = Inr (Some r) \<and> Allocation2_isValid st r = Inr True
           \<and> associations st r = Some base
           \<and> st1 = st\<lparr>addressPools := (addressPools st)(base := None)\<rparr>"
proof -
  from assms obtain found where f: "Allocator2_find st a = Inr found"
    and h: "(case found of None \<Rightarrow> Inr False
              | Some r \<Rightarrow> bindE (Allocation2_isNull st r) (\<lambda>null. Inr (\<not> null))) = Inr True"
    and d: "destroyFound st found = Inr st1"
    by (auto simp: throwIfNoAllocation_def hasAddress_def bindE_Inr split: if_splits)
  from h obtain r where r: "found = Some r" by (cases found) auto
  from f r have v: "Allocation2_isValid st r = Inr True"
    by (auto simp: Allocator2_find_def copyOf_def bindE_Inr Let_def
        split: option.splits if_splits)
  then have b: "Allocation2_isBound st r = Inr True"
    by (auto simp: Allocation2_isValid_def bindE_Inr split: if_splits option.splits)
  from v obtain base where base: "associations st r = Some base" "isPooled2 st base"
    by (auto simp: Allocation2_isValid_def bindE_Inr split: if_splits option.splits)
  from d r b base have "st1 = st\<lparr>addressPools := (addressPools st)(base := None)\<rparr>"
    by (simp add: destroyFound_def throwIfNotPooled2_def)
  with f r v base show ?thesis by blast
qed

lemma erased_pool_invalid:
  assumes v: "Allocation2_isValid st r = Inr True" and base: "associations st r = Some base"
  defines "st1 \<equiv> st\<lparr>addressPools := (addressPools st)(base := None)\<rparr>"
  shows "Allocation2_size st1 r = Inr 0"
    and "Allocation2_isNull st1 r = Inr True"
    and "Allocation2_isValid st1 r = Inr False"
    and "Allocation2_throwIfInvalid st1 r = Inl ZeroSizeException"
proof -
  from v have b: "Allocation2_isBound st r = Inr True"
    by (auto simp: Allocation2_isValid_def bindE_Inr split: if_splits option.splits)
  then have n: "Allocation2_isNull st r = Inr False" and ab: "Allocator2_isBound st r"
    by (auto simp: Allocation2_isBound_def bindE_Inr)
  from n obtain h where h: "objects2 st r = Some h" "allocator2 h"
    by (auto simp: Allocation2_isNull_def split: option.splits if_splits)
  have ab1: "Allocator2_isBound st1 r"
    using ab base by (simp add: Allocator2_isBound_def st1_def)
  show 1: "Allocation2_size st1 r = Inr 0"
    using h ab1 base
    by (simp add: Allocation2_size_def querySize_def throwIfNotBound2_def poolOf_def
        defaultAddressPool_def AddressPool_size_def st1_def)
  show 2: "Allocation2_isNull st1 r = Inr True"
    using h base 1 by (simp add: Allocation2_isNull_def isAssociated_def st1_def)
  show 3: "Allocation2_isValid st1 r = Inr False"
    using 2 by (simp add: Allocation2_isValid_def Allocation2_isBound_def)
  show "Allocation2_throwIfInvalid st1 r = Inl ZeroSizeException"
    using 3 h base 1 by (simp add: Allocation2_throwIfInvalid_def st1_def)
qed

lemma refind_exact:
  assumes "throwIfNoAllocation st a = Inr st1"
  shows "Allocator2_find st1 a
           = (if map_of (bindings2 st) a = None then Inl ZeroSizeException else Inr None)"
proof -
  from check_erases_pool [OF assms] obtain r base
    where f: "Allocator2_find st a = Inr (Some r)" and v: "Allocation2_isValid st r = Inr True"
      and base: "associations st r = Some base"
      and st1: "st1 = st\<lparr>addressPools := (addressPools st)(base := None)\<rparr>"
    by blast
  note dead = erased_pool_invalid [OF v base, folded st1]
  have c: "copyOf st1 r = Inr None" using dead(3) by (simp add: copyOf_def)
  have i: "Allocation2_inRange_address st1 r a = Inl ZeroSizeException"
    using dead(4)
    by (simp add: Allocation2_inRange_address_def Allocation2_start_def Allocation2_address_def)
  have b: "bindings2 st1 = bindings2 st" by (simp add: st1)
  show ?thesis
  proof (cases "map_of (bindings2 st) a")
    case None
    with f have "firstOf (snd (bindings2 st ! (upper_bound a (bindings2 st) - 1))) = Inr r"
      and "upper_bound a (bindings2 st) \<noteq> 0"
      by (auto simp: Allocator2_find_def copyOf_def bindE_Inr Let_def split: if_splits)
    with None i b show ?thesis by (simp add: Allocator2_find_def)
  next
    case (Some s)
    with f have "firstOf s = Inr r"
      by (auto simp: Allocator2_find_def copyOf_def bindE_Inr split: if_splits)
    with Some c b show ?thesis by (simp add: Allocator2_find_def)
  qed
qed

lemma refind_after_check:
  assumes "throwIfNoAllocation st a = Inr st1"
  shows "Allocator2_find st1 a = Inr None \<or> Allocator2_find st1 a = Inl ZeroSizeException"
  using refind_exact [OF assms] by (simp split: if_splits)

lemma found_none:
  assumes "Allocator2_find st a = Inr None"
  shows "Allocator2_willSplit st a n = Inr False"
    and "afterFind st a = Inr st"
    and "throwIfNoAllocation st a = Inl (AddressHasNoAllocationException a)"
    and "read_found st a n = Inl (nullRangeError a n)"
    and "write_found st a data = Inl (nullRangeError a (of_nat (length data)))"
  using assms
  by (simp_all add: Allocator2_willSplit_def afterFind_def destroyFound_def throwIfNoAllocation_def
      hasAddress_def read_found_def write_found_def)

lemma found_error:
  assumes "Allocator2_find st a = Inl e"
  shows "Allocator2_willSplit st a n = Inl e"
    and "afterFind st a = Inl e"
    and "throwIfNoAllocation st a = Inl e"
  using assms
  by (simp_all add: Allocator2_willSplit_def afterFind_def throwIfNoAllocation_def hasAddress_def)

text \<open>
  Once \<open>throwIfNoAllocation\<close> has passed for an address, no routine that looks the
  address up again gets anywhere: the closed forms of the four dispatch routines.
\<close>

lemma read_state_fails:
  "Allocator2_read_state st a n =
     (case throwIfNoAllocation st a of
        Inl e \<Rightarrow> Inl e
      | Inr st1 \<Rightarrow> (case Allocator2_find st1 a of
                     Inl e \<Rightarrow> Inl e
                   | Inr found \<Rightarrow> Inl (nullRangeError a n)))"
proof (cases "throwIfNoAllocation st a")
  case (Inl e)
  then show ?thesis by (simp add: Allocator2_read_state.simps)
next
  case (Inr st1)
  from refind_after_check [OF Inr] show ?thesis
  proof
    assume f: "Allocator2_find st1 a = Inr None"
    from Inr f found_none [OF f] show ?thesis
      by (simp add: Allocator2_read_state.simps)
  next
    assume f: "Allocator2_find st1 a = Inl ZeroSizeException"
    from Inr f found_error [OF f] show ?thesis
      by (simp add: Allocator2_read_state.simps)
  qed
qed

lemma splitRead_state_fails:
  "Allocator2_splitRead_state st a n =
     (case throwIfNoAllocation st a of
        Inl e \<Rightarrow> Inl e
      | Inr st1 \<Rightarrow> (case Allocator2_find st1 a of
                     Inl e \<Rightarrow> Inl e
                   | Inr found \<Rightarrow> Inl (AddressHasNoAllocationException a)))"
proof (cases "throwIfNoAllocation st a")
  case (Inl e)
  then show ?thesis by (simp add: Allocator2_splitRead_state.simps)
next
  case (Inr st1)
  from refind_after_check [OF Inr] show ?thesis
  proof
    assume f: "Allocator2_find st1 a = Inr None"
    from Inr f found_none [OF f] show ?thesis
      by (simp add: Allocator2_splitRead_state.simps read_state_fails)
  next
    assume f: "Allocator2_find st1 a = Inl ZeroSizeException"
    from Inr f found_error [OF f] show ?thesis
      by (simp add: Allocator2_splitRead_state.simps)
  qed
qed

lemma write_fails:
  "Allocator2_write st a data =
     (case throwIfNoAllocation st a of
        Inl e \<Rightarrow> Inl e
      | Inr st1 \<Rightarrow> (case Allocator2_find st1 a of
                     Inl e \<Rightarrow> Inl e
                   | Inr found \<Rightarrow> Inl (nullRangeError a (of_nat (length data)))))"
proof (cases "throwIfNoAllocation st a")
  case (Inl e)
  then show ?thesis by (simp add: Allocator2_write.simps)
next
  case (Inr st1)
  from refind_after_check [OF Inr] show ?thesis
  proof
    assume f: "Allocator2_find st1 a = Inr None"
    from Inr f found_none [OF f] show ?thesis
      by (simp add: Allocator2_write.simps)
  next
    assume f: "Allocator2_find st1 a = Inl ZeroSizeException"
    from Inr f found_error [OF f] show ?thesis
      by (simp add: Allocator2_write.simps)
  qed
qed

lemma splitWrite_fails:
  "Allocator2_splitWrite st a data =
     (case throwIfNoAllocation st a of
        Inl e \<Rightarrow> Inl e
      | Inr st1 \<Rightarrow> (case Allocator2_find st1 a of
                     Inl e \<Rightarrow> Inl e
                   | Inr found \<Rightarrow> Inl (AddressHasNoAllocationException a)))"
proof (cases "throwIfNoAllocation st a")
  case (Inl e)
  then show ?thesis by (simp add: Allocator2_splitWrite.simps)
next
  case (Inr st1)
  from refind_after_check [OF Inr] show ?thesis
  proof
    assume f: "Allocator2_find st1 a = Inr None"
    from Inr f found_none [OF f] show ?thesis
      by (simp add: Allocator2_splitWrite.simps write_fails)
  next
    assume f: "Allocator2_find st1 a = Inl ZeroSizeException"
    from Inr f found_error [OF f] show ?thesis
      by (simp add: Allocator2_splitWrite.simps)
  qed
qed

subsection \<open>No routine of \<open>part_002\<close> reads the \<open>split\<close> flag\<close>

lemma flag_basic [simp]:
  "isPooled2 (st\<lparr>split := b\<rparr>) a = isPooled2 st a"
  "isAssociated (st\<lparr>split := b\<rparr>) r = isAssociated st r"
  "Allocator2_isBound (st\<lparr>split := b\<rparr>) r = Allocator2_isBound st r"
  "poolOf (st\<lparr>split := b\<rparr>) a = poolOf st a"
  "sizeAt (st\<lparr>split := b\<rparr>) a = sizeAt st a"
  "readAddress (st\<lparr>split := b\<rparr>) a n = readAddress st a n"
  by (simp_all add: isPooled2_def isAssociated_def Allocator2_isBound_def poolOf_def sizeAt_def
      readAddress_def Let_def cong: option.case_cong if_cong)

lemma flag_guards [simp]:
  "throwIfNotPooled2 (st\<lparr>split := b\<rparr>) a = throwIfNotPooled2 st a"
  "throwIfNotBound2 (st\<lparr>split := b\<rparr>) r = throwIfNotBound2 st r"
  "throwIfBound2 (st\<lparr>split := b\<rparr>) r = throwIfBound2 st r"
  by (simp_all add: throwIfNotPooled2_def throwIfNotBound2_def throwIfBound2_def Let_def cong: option.case_cong if_cong)

lemma flag_size [simp]:
  "querySize (st\<lparr>split := b\<rparr>) r = querySize st r"
  "Allocator2_address (st\<lparr>split := b\<rparr>) r offset = Allocator2_address st r offset"
  "Allocation2_size (st\<lparr>split := b\<rparr>) r = Allocation2_size st r"
  by (simp_all add: querySize_def Allocator2_address_def Allocation2_size_def Let_def cong: option.case_cong if_cong)

lemma flag_isNull [simp]: "Allocation2_isNull (st\<lparr>split := b\<rparr>) r = Allocation2_isNull st r"
  by (simp add: Allocation2_isNull_def Let_def cong: option.case_cong if_cong)

lemma flag_isBound [simp]: "Allocation2_isBound (st\<lparr>split := b\<rparr>) r = Allocation2_isBound st r"
  by (simp add: Allocation2_isBound_def Let_def cong: option.case_cong if_cong)

lemma flag_isValid [simp]: "Allocation2_isValid (st\<lparr>split := b\<rparr>) r = Allocation2_isValid st r"
  by (simp add: Allocation2_isValid_def Let_def cong: option.case_cong if_cong)

lemma flag_throwIfInvalid [simp]:
  "Allocation2_throwIfInvalid (st\<lparr>split := b\<rparr>) r = Allocation2_throwIfInvalid st r"
  by (simp add: Allocation2_throwIfInvalid_def Let_def cong: option.case_cong if_cong)

lemma flag_address [simp]:
  "Allocation2_address (st\<lparr>split := b\<rparr>) r offset = Allocation2_address st r offset"
  "Allocation2_start (st\<lparr>split := b\<rparr>) r = Allocation2_start st r"
  "Allocation2_end (st\<lparr>split := b\<rparr>) r = Allocation2_end st r"
  by (simp_all add: Allocation2_address_def Allocation2_start_def Allocation2_end_def Let_def cong: option.case_cong if_cong)

lemma flag_inRange [simp]:
  "Allocation2_inRange_address (st\<lparr>split := b\<rparr>) r a = Allocation2_inRange_address st r a"
  "Allocation2_inRange_address_size (st\<lparr>split := b\<rparr>) r a n
     = Allocation2_inRange_address_size st r a n"
  "Allocation2_throwIfNotInRange_address (st\<lparr>split := b\<rparr>) r a
     = Allocation2_throwIfNotInRange_address st r a"
  "Allocation2_throwIfNotInRange (st\<lparr>split := b\<rparr>) r a n = Allocation2_throwIfNotInRange st r a n"
  by (simp_all add: Allocation2_inRange_address_def Allocation2_inRange_address_size_def
      Allocation2_throwIfNotInRange_address_def Allocation2_throwIfNotInRange_def Let_def cong: option.case_cong if_cong)

lemma flag_find [simp]:
  "copyOf (st\<lparr>split := b\<rparr>) r = copyOf st r"
  "Allocator2_find (st\<lparr>split := b\<rparr>) a = Allocator2_find st a"
  by (simp_all add: copyOf_def Allocator2_find_def Let_def cong: option.case_cong if_cong)

lemma flag_willSplit [simp]:
  "Allocator2_willSplit (st\<lparr>split := b\<rparr>) a n = Allocator2_willSplit st a n"
  by (simp add: Allocator2_willSplit_def Let_def cong: option.case_cong if_cong)

lemma flag_read_allocation [simp]:
  "Allocator2_read_allocation (st\<lparr>split := b\<rparr>) r a n = Allocator2_read_allocation st r a n"
  by (simp add: Allocator2_read_allocation_def)

lemma withSplit_simps [simp]:
  "withSplit b (Inl e) = Inl e" "withSplit b (Inr st) = Inr (st\<lparr>split := b\<rparr>)"
  "withSplit2 b (Inl e) = Inl e" "withSplit2 b (Inr (st, x)) = Inr (st\<lparr>split := b\<rparr>, x)"
  by (simp_all add: withSplit_def withSplit2_def)

lemma withSplit_bindE:
  "withSplit b (bindE m f) = bindE m (\<lambda>x. withSplit b (f x))"
  "withSplit2 b (bindE m g) = bindE m (\<lambda>x. withSplit2 b (g x))"
  by (cases m; simp)+

lemma bindE_withSplit:
  "bindE (withSplit b m) f = bindE m (\<lambda>st. f (st\<lparr>split := b\<rparr>))"
  by (cases m) simp_all

lemma flag_destroyFound [simp]:
  "destroyFound (st\<lparr>split := b\<rparr>) found = withSplit b (destroyFound st found)"
proof (cases found)
  case None
  then show ?thesis by (simp add: destroyFound_def)
next
  case (Some r)
  show ?thesis
  proof (cases "Allocation2_isBound st r")
    case (Inl e)
    with Some show ?thesis by (simp add: destroyFound_def)
  next
    case (Inr bound)
    show ?thesis
    proof (cases "associations st r")
      case None
      with Some Inr show ?thesis by (simp add: destroyFound_def)
    next
      case base: (Some boundAddress)
      with Some Inr show ?thesis
        by (cases "throwIfNotPooled2 st boundAddress") (simp_all add: destroyFound_def)
    qed
  qed
qed

lemma flag_afterFind [simp]:
  "afterFind (st\<lparr>split := b\<rparr>) a = withSplit b (afterFind st a)"
  by (simp add: afterFind_def withSplit_bindE)

lemma flag_throwIfNoAllocation [simp]:
  "throwIfNoAllocation (st\<lparr>split := b\<rparr>) a = withSplit b (throwIfNoAllocation st a)"
proof (cases "Allocator2_find st a")
  case (Inl e)
  then show ?thesis by (simp add: throwIfNoAllocation_def hasAddress_def)
next
  case (Inr found)
  show ?thesis
  proof (cases "case found of None \<Rightarrow> Inr False
                 | Some r \<Rightarrow> bindE (Allocation2_isNull st r) (\<lambda>null. Inr (\<not> null))")
    case (Inl e)
    with Inr show ?thesis
      by (simp add: throwIfNoAllocation_def hasAddress_def cong: option.case_cong)
  next
    case has: (Inr h)
    with Inr show ?thesis
      by (cases "destroyFound st found")
        (simp_all add: throwIfNoAllocation_def hasAddress_def cong: option.case_cong)
  qed
qed

lemma flag_read [simp]:
  "Allocator2_read (st\<lparr>split := b\<rparr>) a n = Allocator2_read st a n"
  "Allocator2_splitRead (st\<lparr>split := b\<rparr>) a n = Allocator2_splitRead st a n"
  by (cases "throwIfNoAllocation st a";
      simp add: Allocator2_read_def Allocator2_splitRead_def read_state_fails
        splitRead_state_fails)+

lemma flag_Allocation2_read [simp]:
  "Allocation2_read_address (st\<lparr>split := b\<rparr>) r a n = Allocation2_read_address st r a n"
  "Allocation2_read (st\<lparr>split := b\<rparr>) r offset n = Allocation2_read st r offset n"
  by (simp_all add: Allocation2_read_address_def Allocation2_read_def bindE_withSplit
      cong: if_cong)

lemma flag_writeAddress [simp]:
  "writeAddress (st\<lparr>split := b\<rparr>) a data = withSplit b (writeAddress st a data)"
  by (simp add: writeAddress_def split: option.splits)

lemma flag_write_allocation [simp]:
  "Allocator2_write_allocation (st\<lparr>split := b\<rparr>) r a data
     = withSplit b (Allocator2_write_allocation st r a data)"
  by (simp add: Allocator2_write_allocation_def withSplit_bindE)

lemma flag_write [simp]:
  "Allocator2_write (st\<lparr>split := b\<rparr>) a data = withSplit b (Allocator2_write st a data)"
  "Allocator2_splitWrite (st\<lparr>split := b\<rparr>) a data
     = withSplit b (Allocator2_splitWrite st a data)"
proof -
  show "Allocator2_write (st\<lparr>split := b\<rparr>) a data = withSplit b (Allocator2_write st a data)"
  proof (cases "throwIfNoAllocation st a")
    case (Inl e)
    then show ?thesis by (simp add: write_fails)
  next
    case (Inr st1)
    then show ?thesis by (cases "Allocator2_find st1 a") (simp_all add: write_fails)
  qed
  show "Allocator2_splitWrite (st\<lparr>split := b\<rparr>) a data
          = withSplit b (Allocator2_splitWrite st a data)"
  proof (cases "throwIfNoAllocation st a")
    case (Inl e)
    then show ?thesis by (simp add: splitWrite_fails)
  next
    case (Inr st1)
    then show ?thesis by (cases "Allocator2_find st1 a") (simp_all add: splitWrite_fails)
  qed
qed

lemma flag_write_address [simp]:
  "Allocation2_write_address (st\<lparr>split := b\<rparr>) r a data
     = withSplit b (Allocation2_write_address st r a data)"
  by (simp add: Allocation2_write_address_def withSplit_bindE bindE_withSplit
      if_distrib [of "withSplit b"] cong: if_cong)

lemma flag_Allocation2_write [simp]:
  "Allocation2_write (st\<lparr>split := b\<rparr>) r offset data = withSplit b (Allocation2_write st r offset data)"
proof -
  let ?X = "bindE (Allocation2_address st r offset)
             (\<lambda>address. Allocation2_write_address st r address data)"
  have inner: "bindE (Allocation2_address (st\<lparr>split := b\<rparr>) r offset)
             (\<lambda>address. Allocation2_write_address (st\<lparr>split := b\<rparr>) r address data) = withSplit b ?X"
    by (simp add: withSplit_bindE)
  show ?thesis
  proof (cases ?X)
    case (Inr s1)
    then show ?thesis unfolding Allocation2_write_def inner by simp
  next
    case (Inl e)
    then show ?thesis unfolding Allocation2_write_def inner
      by (cases e; cases "Allocation2_size st r"; simp)
  qed
qed


subsection \<open>Offsets into an extent that does not wrap around\<close>

lemma unat_add64:
  fixes x y :: "64 word"
  assumes "unat x + unat y < 2 ^ 64"
  shows "unat (x + y) = unat x + unat y"
  using assms unat_add_lem [of x y] by simp

lemma no_wrap_le64:
  fixes x y :: "64 word"
  shows "x \<le> x + y \<longleftrightarrow> unat x + unat y < 2 ^ 64"
  using no_olen_add_nat [of x y] by simp

lemma offset_in_extent:
  fixes p n x :: "64 word"
  assumes "unat p + unat n < 2 ^ 64"
  shows "(p \<le> p + x \<and> p + x < p + n) \<longleftrightarrow> unat x < unat n"
proof
  assume a: "p \<le> p + x \<and> p + x < p + n"
  then have "unat p + unat x < 2 ^ 64" by (simp add: no_wrap_le64)
  then have 1: "unat (p + x) = unat p + unat x" by (simp add: unat_add64)
  have 2: "unat (p + n) = unat p + unat n" using assms by (simp add: unat_add64)
  from a have "unat (p + x) < unat (p + n)" by (simp add: word_less_nat_alt)
  with 1 2 show "unat x < unat n" by simp
next
  assume b: "unat x < unat n"
  with assms have nx: "unat p + unat x < 2 ^ 64" by simp
  then have 1: "unat (p + x) = unat p + unat x" by (simp add: unat_add64)
  have 2: "unat (p + n) = unat p + unat n" using assms by (simp add: unat_add64)
  show "p \<le> p + x \<and> p + x < p + n"
    using nx 1 2 b by (simp add: no_wrap_le64 word_less_nat_alt)
qed

lemma offset_in_closed_extent:
  fixes p n x :: "64 word"
  assumes "unat p + unat n < 2 ^ 64"
  shows "(p \<le> p + x \<and> p + x \<le> p + n) \<longleftrightarrow> unat x \<le> unat n"
proof
  assume a: "p \<le> p + x \<and> p + x \<le> p + n"
  then have "unat p + unat x < 2 ^ 64" by (simp add: no_wrap_le64)
  then have 1: "unat (p + x) = unat p + unat x" by (simp add: unat_add64)
  have 2: "unat (p + n) = unat p + unat n" using assms by (simp add: unat_add64)
  from a have "unat (p + x) \<le> unat (p + n)" by (simp add: word_le_nat_alt)
  with 1 2 show "unat x \<le> unat n" by simp
next
  assume b: "unat x \<le> unat n"
  with assms have nx: "unat p + unat x < 2 ^ 64" by simp
  then have 1: "unat (p + x) = unat p + unat x" by (simp add: unat_add64)
  have 2: "unat (p + n) = unat p + unat n" using assms by (simp add: unat_add64)
  show "p \<le> p + x \<and> p + x \<le> p + n"
    using nx 1 2 b by (simp add: no_wrap_le64 word_le_nat_alt)
qed

lemma unat_last_offset:
  fixes offset n :: "64 word"
  assumes "n \<noteq> 0" "unat offset + unat n \<le> 2 ^ 64"
  shows "unat (offset + n - 1) = unat offset + unat n - 1"
proof -
  have n1: "1 \<le> unat n" using assms(1) by (simp add: unat_gt_0 Suc_le_eq)
  have "unat (n - 1) = unat n - 1" using assms(1) by (simp add: unat_minus_one)
  moreover have "unat offset + unat (n - 1) < 2 ^ 64" using calculation n1 assms(2) by simp
  ultimately have "unat (offset + (n - 1)) = unat offset + unat n - 1"
    using n1 by (simp add: unat_add64)
  then show ?thesis by (simp add: add_diff_eq)
qed

lemma v3_inRange_offset:
  assumes v: "validAt st r p n" and nowrap: "unat p + unat n < 2 ^ 64"
  shows "Allocation2_inRange_offset st r offset = Inr (unat offset < unat n)"
proof -
  from v have n0: "n \<noteq> 0" by (simp add: validAt_def)
  show ?thesis
    using validAt_facts(2,3,8) [OF v] validAt_inRange(1) [OF v] n0 offset_in_extent [OF nowrap]
    by (simp add: Allocation2_inRange_offset_def)
qed


subsection \<open>Unbinding and rebinding in \<open>part_002\<close>\<close>

lemma map_of_map_set: "map_of (map_set k v m) = (map_of m)(k \<mapsto> v)"
  by (induction m) (auto simp: fun_upd_twist)

lemma map_of_map_erase: "map_of (map_erase k m) = (map_of m)(k := None)"
  by (induction m) (auto simp: map_erase_def)

lemma aliasedExtent_reachable:
  "bindE (poolAddress (emptyAllocator2\<lparr>objects2 := [21 \<mapsto> \<lparr>allocator2 = True\<rparr>,
                                                       22 \<mapsto> \<lparr>allocator2 = True\<rparr>]\<rparr>) 4096 4)
     (\<lambda>(p, st1). bindE (poolAddress st1 8192 4)
       (\<lambda>(q, st2). bindE (Allocator2_bind st2 21 p)
         (\<lambda>st3. Allocation2_copy st3 22 21))) = Inr aliasedExtent"
  apply (simp add: poolAddress_def emptyAllocator2_def Let_def replicate4)
  apply (simp add: Allocator2_bind_def throwIfNotPooled2_def isPooled2_def throwIfBound2_def
      Allocator2_isBound_def bindingSet2_def set_insert_def sizeAt_def)
  apply (simp add: Allocation2_copy_def Allocation2_throwIfInvalid_def Allocation2_isValid_def
      Allocation2_isBound_def Allocation2_isNull_def isAssociated_def Allocation2_size_def
      querySize_def throwIfNotBound2_def Allocator2_isBound_def poolOf_def AddressPool_size_def
      isPooled2_def addressOf_def Let_def)
  apply (simp add: Allocator2_bind_def throwIfNotPooled2_def isPooled2_def throwIfBound2_def
      Allocator2_isBound_def bindingSet2_def set_insert_def sizeAt_def aliasedExtent_def fun_upd_twist)
  done



lemma aliasedExtent_backed:
  "accessible (memory2 aliasedExtent) 4096 (unat (sizeAt aliasedExtent 4096))"
  "accessible (memory2 afterFirstRelease) 4096 (unat (sizeAt afterFirstRelease 4096))"
  by (simp_all add: aliasedExtent_def afterFirstRelease_def sizeAt_def accessible_def upt4 store_def)


subsection \<open>Copying between disjoint blocks\<close>

lemma disjointBlocks_iff:
  "disjointBlocks p n q k \<longleftrightarrow> (\<forall>i<n. \<not> unat (p + of_nat i - q) < k)"
  by (auto simp: disjointBlocks_def list_all_iff)

lemma in_block_iff:
  fixes x p :: "64 word"
  assumes "k \<le> 2 ^ 64"
  shows "unat (x - p) < k \<longleftrightarrow> (\<exists>i<k. x = p + of_nat i)"
proof
  assume "unat (x - p) < k"
  moreover have "x = p + of_nat (unat (x - p))" by simp
  ultimately show "\<exists>i<k. x = p + of_nat i" by blast
next
  assume "\<exists>i<k. x = p + of_nat i"
  then obtain i where i: "i < k" "x = p + of_nat i" by blast
  with assms have "unat (x - p) = i" by (simp add: unat_of_nat64)
  with i show "unat (x - p) < k" by simp
qed

lemma disjointBlocks_sym:
  assumes "disjointBlocks p n q k" "n \<le> 2 ^ 64" "k \<le> 2 ^ 64"
  shows "disjointBlocks q k p n"
  unfolding disjointBlocks_iff
proof (intro allI impI notI)
  fix j assume j: "j < k" and inp: "unat (q + of_nat j - p) < n"
  from inp in_block_iff [OF assms(2), of "q + of_nat j" p]
  obtain i where i: "i < n" "q + of_nat j = p + of_nat i" by blast
  from assms(1) i(1) have "\<not> unat (p + of_nat i - q) < k" by (simp add: disjointBlocks_iff)
  moreover have "unat (p + of_nat i - q) = j"
    using i(2) [symmetric] j assms(3) by (simp add: unat_of_nat64)
  ultimately show False using j by simp
qed

lemma load_cong:
  "(\<And>i. i < k \<Longrightarrow> m (p + of_nat i) = m' (p + of_nat i)) \<Longrightarrow> load m p k = load m' p k"
  by (simp add: load_def)

lemma store_outside: "\<not> unat (x - p) < length bs \<Longrightarrow> store m p bs x = m x"
  by (simp add: store_def)

lemma release_outside: "\<not> unat (x - p) < n \<Longrightarrow> release m p n x = m x"
  by (simp add: release_def)

lemma load_store_prefix:
  assumes "k \<le> length bs" "length bs \<le> 2 ^ 64"
  shows "load (store m p bs) p k = take k bs"
  using assms by (intro nth_equalityI) (simp_all add: load_def store_at)

lemma length_load [simp]: "length (load m p k) = k"
  by (simp add: load_def)

lemma accessible_store_inside:
  assumes "k \<le> length bs" "length bs \<le> 2 ^ 64"
  shows "accessible (store m p bs) p k"
  using assms by (simp add: accessible_iff store_at)

lemma accessible_store_other:
  assumes "accessible m q k"
  shows "accessible (store m p bs) q k"
  using assms by (simp add: accessible_iff store_def)

lemma accessible_mono: "accessible m p n \<Longrightarrow> k \<le> n \<Longrightarrow> accessible m p k"
  by (simp add: accessible_iff)

lemma unat_le64: "unat (x :: 64 word) \<le> 2 ^ 64"
proof -
  have "unat x < 2 ^ LENGTH(64)" by (rule unsigned_less)
  then show ?thesis by simp
qed

lemma repoolAddress_preserves:
  assumes pooled: "map_of (pooledMemory st) address = Some old"
    and backed: "accessible (memory2 st) address (unat old)"
    and fresh: "disjointBlocks newPointer (unat newSize) address (unat old)"
    and other: "newPointer \<noteq> address"
  shows "\<exists>st'. repoolAddress st newPointer address newSize = Inr (newPointer, st')
           \<and> map_of (pooledMemory st') newPointer = Some newSize
           \<and> map_of (pooledMemory st') address = None
           \<and> load (memory2 st') newPointer (unat (min old newSize))
               = load (memory2 st) address (unat (min old newSize))"
proof -
  let ?k = "unat (min old newSize)"
  let ?m1 = "store (memory2 st) newPointer (replicate (unat newSize) 0)"
  let ?pm1 = "map_set newPointer newSize (pooledMemory st)"
  have k_old: "?k \<le> unat old" and k_new: "?k \<le> unat newSize"
    by (simp_all add: min_def word_le_nat_alt)
  have fresh': "disjointBlocks address (unat old) newPointer (unat newSize)"
    by (rule disjointBlocks_sym [OF fresh unat_le64 unat_le64])
  have pm1: "map_of ?pm1 address = Some old" using other pooled by (simp add: map_of_map_set)
  have old_same: "?m1 (address + of_nat i) = memory2 st (address + of_nat i)" if "i < unat old" for i
    using fresh' that by (simp add: disjointBlocks_iff store_outside)
  let ?bytes = "load (memory2 st) address ?k"
  have acc1: "accessible ?m1 address ?k"
    using accessible_mono [OF backed k_old] by (rule accessible_store_other)
  have ld1: "load ?m1 address ?k = ?bytes"
    using old_same k_old by (intro load_cong) simp
  have out: "CopyData_out ?m1 address ?k = Some ?bytes"
    using acc1 ld1 by (simp add: CopyData_out_def)
  let ?m2 = "store ?m1 newPointer ?bytes"
  have acc_new: "accessible ?m1 newPointer ?k"
    using k_new unat_le64 [of newSize] by (intro accessible_store_inside) simp_all
  have inn: "CopyData_in ?m1 newPointer ?bytes = Some ?m2"
    using acc_new by (simp add: CopyData_in_def)
  have acc2: "accessible ?m2 address (unat old)"
    using backed by (intro accessible_store_other)
  let ?m3 = "store ?m2 address (replicate (unat old) 0)"
  have zero: "CopyData_in ?m2 address (replicate (unat old) 0) = Some ?m3"
    using acc2 by (simp add: CopyData_in_def)
  let ?st' = "st\<lparr>pooledMemory := map_erase address ?pm1,
                  memory2 := release ?m3 address (unat old)\<rparr>"
  have rp: "repoolAddress st newPointer address newSize = Inr (newPointer, ?st')"
    using other
    by (simp add: repoolAddress_def throwIfNotPooled2_def poolAddress_def Let_def isPooled2_def
        pooled readAddress_def sizeAt_def pm1 out writeAddress_def inn unpoolAddress_def zero)
  have new_kept: "memory2 ?st' (newPointer + of_nat i) = ?m2 (newPointer + of_nat i)"
    if "i < unat newSize" for i
    using fresh that by (simp add: disjointBlocks_iff store_outside release_outside)
  have "load (memory2 ?st') newPointer ?k = load ?m2 newPointer ?k"
    using new_kept k_new by (intro load_cong) simp
  also have "\<dots> = take ?k ?bytes"
    using unat_le64 [of "min old newSize"] by (intro load_store_prefix) simp_all
  finally have ld: "load (memory2 ?st') newPointer ?k = ?bytes" by simp
  have pn: "map_of (pooledMemory ?st') newPointer = Some newSize"
    using other by (simp add: map_of_map_erase map_of_map_set)
  have pa: "map_of (pooledMemory ?st') address = None" by (simp add: map_of_map_erase)
  from rp pn pa ld show ?thesis by blast
qed


subsection \<open>Repooling in the pointer-based allocator\<close>

lemma rebind_erases:
  assumes b: "bindings st address = Some (r # rs)" and d: "distinct (r # rs)"
    and obj: "objects st r = Some a" and pa: "pointer a = address"
    and old: "memoryPool st address = Some old" and acc: "accessible (memory st) address (unat old)"
    and new: "memoryPool st newPool = Some n" and other: "newPool \<noteq> address"
  shows "\<exists>st1. Allocator_rebind st r newPool = Inr st1 \<and> r \<notin> set (bindingSet st1 address)"
proof -
  have rn: "r \<notin> set rs" using d by simp
  have bound: "Allocator_isBound st r"
    using obj pa b by (simp add: Allocator_isBound_def)
  have pooled: "isPooled st address" "isPooled st newPool"
    using old new by (simp_all add: isPooled_def)
  define ns where "ns = set_insert r (bindingSet st newPool)"
  define o2 where "o2 = (objects st)(r \<mapsto> \<lparr>allocator = True, pointer = newPool, size' = n\<rparr>)"
  define b2 where "b2 = (bindings st)(newPool \<mapsto> ns, address \<mapsto> rs)"
  let ?st2 = "st\<lparr>bindings := b2, objects := o2\<rparr>"
  have step: "Allocator_rebind st r newPool
               = (if rs = [] then Allocator_unpool ?st2 address else Inr ?st2)"
    using bound obj pa pooled b new other rn
    by (simp add: Allocator_rebind_def throwIfNotPooled_def Let_def bindingSet_def set_erase_def
        ns_def o2_def b2_def)
  show ?thesis
  proof (cases "rs = []")
    case True
    let ?st3 = "?st2\<lparr>memory := release (memory ?st2) address (unat old),
                     memoryPool := (memoryPool ?st2)(address := None)\<rparr>"
    have "Allocator_unpool ?st2 address = Inr ?st3"
      using old acc True
      by (simp add: Allocator_unpool_def throwIfNotPooled_def isPooled_def b2_def
          unpool_release_def)
    with step True show ?thesis by (simp add: bindingSet_def b2_def)
  next
    case False
    with step rn show ?thesis by (simp add: bindingSet_def b2_def)
  qed
qed

lemma repool_undefined:
  assumes b: "bindings st address = Some (r # rs)" and d: "distinct (r # rs)"
    and obj: "objects st r = Some a" and pa: "pointer a = address"
    and pooled: "memoryPool st address = Some old"
    and backed: "accessible (memory st) address (unat old)"
    and nonnull: "newPointer \<noteq> 0" "n \<noteq> 0" and other: "newPointer \<noteq> address"
  shows "Allocator_repool st newPointer address n = Inl UndefinedBehaviour"
proof -
  let ?k = "unat (min n old)"
  let ?m1 = "store (memory st) newPointer (replicate (unat n) 0)"
  let ?bytes = "load ?m1 address ?k"
  let ?m2 = "store ?m1 newPointer ?bytes"
  let ?mp = "(memoryPool st)(newPointer \<mapsto> n)"
  let ?st1 = "st\<lparr>memory := ?m1, memoryPool := ?mp\<rparr>"
  let ?st1m = "?st1\<lparr>memory := ?m2\<rparr>"
  have k_old: "?k \<le> unat old" and k_new: "?k \<le> unat n"
    by (simp_all add: min_def word_le_nat_alt)
  have acc1: "accessible ?m1 address ?k"
    using accessible_mono [OF backed k_old] by (rule accessible_store_other)
  have out: "CopyData_out ?m1 address ?k = Some ?bytes"
    using acc1 by (simp add: CopyData_out_def)
  have acc_new: "accessible ?m1 newPointer ?k"
    using k_new unat_le64 [of n] by (intro accessible_store_inside) simp_all
  have inn: "CopyData_in ?m1 newPointer ?bytes = Some ?m2"
    using acc_new by (simp add: CopyData_in_def)
  have acc2: "accessible ?m2 address (unat old)"
    using backed by (intro accessible_store_other)
  have head: "Allocator_repool st newPointer address n =
      bindE (repool_walk ?st1m address (r # rs) newPointer) (\<lambda>st2.
        bindE (if isPooled st2 address then Allocator_unpool st2 address else Inr st2)
          (\<lambda>st3. Inr (newPointer, st3)))"
    using pooled nonnull other out inn b
    by (simp add: Allocator_repool_def throwIfNotPooled_def isPooled_def Allocator_pool_def Let_def)
  have "\<exists>st1. Allocator_rebind ?st1m r newPointer = Inr st1 \<and> r \<notin> set (bindingSet st1 address)"
    using b d obj pa pooled other acc2
    by (intro rebind_erases [where a = a and old = old and n = n and rs = rs]) simp_all
  then have "repool_walk ?st1m address (r # rs) newPointer = Inl UndefinedBehaviour"
    by auto
  with head show ?thesis by simp
qed

lemma repool_unbound_preserves:
  assumes unbound: "bindingSet st address = []"
    and pooled: "memoryPool st address = Some old"
    and backed: "accessible (memory st) address (unat old)"
    and fresh: "disjointBlocks newPointer (unat n) address (unat old)"
    and nonnull: "newPointer \<noteq> 0" "n \<noteq> 0" and other: "newPointer \<noteq> address"
  shows "\<exists>st'. Allocator_repool st newPointer address n = Inr (newPointer, st')
           \<and> memoryPool st' = (memoryPool st)(newPointer \<mapsto> n, address := None)
           \<and> load (memory st') newPointer (unat (min n old))
               = load (memory st) address (unat (min n old))"
proof -
  let ?k = "unat (min n old)"
  let ?m1 = "store (memory st) newPointer (replicate (unat n) 0)"
  let ?bytes = "load (memory st) address ?k"
  let ?m2 = "store ?m1 newPointer ?bytes"
  let ?mp = "(memoryPool st)(newPointer \<mapsto> n)"
  let ?st1 = "st\<lparr>memory := ?m1, memoryPool := ?mp\<rparr>"
  let ?st1m = "?st1\<lparr>memory := ?m2\<rparr>"
  let ?final = "release ?m2 address (unat old)"
  have k_old: "?k \<le> unat old" and k_new: "?k \<le> unat n"
    by (simp_all add: min_def word_le_nat_alt)
  have fresh': "disjointBlocks address (unat old) newPointer (unat n)"
    by (rule disjointBlocks_sym [OF fresh unat_le64 unat_le64])
  have old_same: "?m1 (address + of_nat i) = memory st (address + of_nat i)" if "i < unat old" for i
    using fresh' that by (simp add: disjointBlocks_iff store_outside)
  have acc1: "accessible ?m1 address ?k"
    using accessible_mono [OF backed k_old] by (rule accessible_store_other)
  have ld1: "load ?m1 address ?k = ?bytes"
    using old_same k_old by (intro load_cong) simp
  have out: "CopyData_out ?m1 address ?k = Some ?bytes"
    using acc1 ld1 by (simp add: CopyData_out_def)
  have acc_new: "accessible ?m1 newPointer ?k"
    using k_new unat_le64 [of n] by (intro accessible_store_inside) simp_all
  have inn: "CopyData_in ?m1 newPointer ?bytes = Some ?m2"
    using acc_new by (simp add: CopyData_in_def)
  have acc2: "accessible ?m2 address (unat old)"
    using backed by (intro accessible_store_other)
  have new_kept: "?final (newPointer + of_nat i) = ?m2 (newPointer + of_nat i)"
    if "i < unat n" for i
    using fresh that by (simp add: disjointBlocks_iff release_outside)
  have "load ?final newPointer ?k = load ?m2 newPointer ?k"
    using new_kept k_new by (intro load_cong) simp
  also have "\<dots> = take ?k ?bytes"
    using unat_le64 [of "min n old"] by (intro load_store_prefix) simp_all
  finally have ld: "load ?final newPointer ?k = ?bytes" by simp
  have rel: "unpool_release ?st1m address
      = Inr (?st1m\<lparr>memory := ?final, memoryPool := ?mp(address := None)\<rparr>)"
    using pooled other acc2 by (simp add: unpool_release_def)
  have walk: "(case bindings st address of None \<Rightarrow> Inr ?st1m
               | Some s \<Rightarrow> repool_walk ?st1m address s newPointer) = Inr ?st1m"
    using unbound by (cases "bindings st address") (simp_all add: bindingSet_def)
  have head: "Allocator_repool st newPointer address n =
        bindE (if isPooled ?st1m address then Allocator_unpool ?st1m address else Inr ?st1m)
          (\<lambda>st3. Inr (newPointer, st3))"
    using pooled nonnull other out inn walk
    by (simp add: Allocator_repool_def throwIfNotPooled_def isPooled_def Allocator_pool_def Let_def)
  have "Allocator_unpool ?st1m address
          = Inr (?st1m\<lparr>memory := ?final, memoryPool := ?mp(address := None)\<rparr>)"
  proof (cases "bindings st address")
    case None
    then show ?thesis
      using pooled other rel by (simp add: Allocator_unpool_def throwIfNotPooled_def isPooled_def)
  next
    case (Some s)
    with unbound have "s = []" by (simp add: bindingSet_def)
    with Some show ?thesis
      using pooled other rel by (simp add: Allocator_unpool_def throwIfNotPooled_def isPooled_def)
  qed
  with head pooled other
  have "Allocator_repool st newPointer address n
          = Inr (newPointer, ?st1m\<lparr>memory := ?final, memoryPool := ?mp(address := None)\<rparr>)"
    by (simp add: isPooled_def)
  with ld show ?thesis by simp
qed

lemma pooledOnly_facts:
  "bindingSet pooledOnly 4096 = []"
  "memoryPool pooledOnly 4096 = Some 4"
  "accessible (memory pooledOnly) 4096 4"
  "load (memory pooledOnly) 4096 2 = [10, 20]"
  by (simp_all add: pooledOnly_def emptyAllocator_def bindingSet_def accessible_def load_def
      store_def upt_rec)

lemma filled_facts:
  "bindingsAgree filledAllocator" "poolBacked filledAllocator"
  "Allocation_isBound filledAllocator 1"
  "objects filledAllocator 1 = Some \<lparr>allocator = True, pointer = 4096, size' = 4\<rparr>"
  "memoryPool filledAllocator 4096 = Some 4"
  "load (memory filledAllocator) 4096 2 = [10, 20]"
  "disjointBlocks 8192 2 4096 4"
       apply (auto simp: bindingsAgree_def filledAllocator_def exampleAllocator_def split: if_splits)[1]
      apply (auto simp: poolBacked_def filledAllocator_def exampleAllocator_def accessible_iff
      store_def unat_of_nat64 split: if_splits)[1]
     apply (simp add: Allocation_isBound_def Allocation_isValid_def Allocator_isBound_def
      isPooled_def filledAllocator_def exampleAllocator_def)
    apply (simp add: filledAllocator_def exampleAllocator_def)
   apply (simp add: filledAllocator_def exampleAllocator_def)
   apply (simp add: filledAllocator_def load_def store_def upt_rec)
  apply (simp add: disjointBlocks_def upt_rec)
  done

lemma filledPool_facts:
  "map_of (pooledMemory filledPool) 4096 = Some 4"
  "accessible (memory2 filledPool) 4096 4"
  "load (memory2 filledPool) 4096 2 = [10, 20]"
  by (simp_all add: filledPool_def emptyAllocator2_def accessible_def load_def store_def upt_rec)


subsection \<open>Well-formed states: the binding that covers an address\<close>

lemma upper_bound_append:
  assumes "\<forall>e\<in>set pre. fst e \<le> a" "\<forall>e\<in>set post. a < fst e"
  shows "upper_bound a (pre @ post) = length pre"
proof -
  have "takeWhile (\<lambda>e. fst e \<le> a) post = []"
    using assms(2) by (cases post) auto
  then show ?thesis using assms(1) by (simp add: upper_bound_def takeWhile_append2)
qed

lemma sorted_split:
  assumes "sorted_wrt (<) (map fst xs)" "(k, s) \<in> set xs"
  obtains pre post where "xs = pre @ (k, s) # post"
    "\<forall>e\<in>set pre. fst e < k" "\<forall>e\<in>set post. k < fst e"
proof -
  from assms(2) obtain pre post where xs: "xs = pre @ (k, s) # post"
    by (auto dest: split_list)
  with assms(1) have "\<forall>e\<in>set pre. fst e < k" "\<forall>e\<in>set post. k < fst e"
    by (auto simp: sorted_wrt_append)
  with xs show ?thesis by (rule that)
qed

lemma map_of_split:
  fixes k :: "'k::linorder"
  assumes "\<forall>e\<in>set pre. fst e < k"
  shows "map_of (pre @ (k, s) # post) k = Some s"
proof -
  have "k \<notin> fst ` set pre" using assms by force
  then have "map_of pre k = None" by (simp add: map_of_eq_None_iff)
  then show ?thesis by (simp add: map_add_def)
qed

lemma wellBound_facts:
  assumes "wellFormed2 st" "(k, s) \<in> set (bindings2 st)"
  obtains r rs where "s = r # rs" "validAt st r k (extent st k)"
    "unat k + unat (extent st k) < 2 ^ 64"
    "accessible (memory2 st) k (unat (extent st k))"
    "\<forall>q\<in>set (pooledMemory st). k < fst q \<longrightarrow> unat k + unat (extent st k) \<le> unat (fst q)"
proof -
  from assms have "wellBound st (k, s)" by (auto simp: wellFormed2_def list_all_iff)
  then show ?thesis
    by (cases s) (auto simp: wellBound_def list_all_iff intro: that)
qed

lemma bound_key_pooled:
  assumes "wellFormed2 st" "(k, s) \<in> set (bindings2 st)"
  shows "k \<in> fst ` set (pooledMemory st)"
proof -
  from wellBound_facts [OF assms] obtain r where "validAt st r k (extent st k)" by metis
  then have "map_of (pooledMemory st) k \<noteq> None" by (simp add: validAt_def isPooled2_def)
  then show ?thesis by (simp add: map_of_eq_None_iff)
qed

lemma covering_split:
  assumes wf: "wellFormed2 st" and mem: "(k, s) \<in> set (bindings2 st)" and cov: "covers st k a"
  obtains pre post where "bindings2 st = pre @ (k, s) # post"
    "\<forall>e\<in>set pre. fst e < k"
    "\<forall>e\<in>set post. a < fst e \<and> unat k + unat (extent st k) \<le> unat (fst e)"
proof -
  from wf have "sorted_wrt (<) (map fst (bindings2 st))" by (simp add: wellFormed2_def)
  from sorted_split [OF this mem] obtain pre post where xs: "bindings2 st = pre @ (k, s) # post"
    and pre: "\<forall>e\<in>set pre. fst e < k" and post: "\<forall>e\<in>set post. k < fst e" by blast
  from wellBound_facts [OF wf mem]
  have sep: "\<forall>q\<in>set (pooledMemory st). k < fst q \<longrightarrow> unat k + unat (extent st k) \<le> unat (fst q)"
    by metis
  have "a < fst e \<and> unat k + unat (extent st k) \<le> unat (fst e)" if e: "e \<in> set post" for e
  proof -
    from e xs have "(fst e, snd e) \<in> set (bindings2 st)" by simp
    from bound_key_pooled [OF wf this] obtain q where "q \<in> set (pooledMemory st)" "fst q = fst e"
      by auto
    with sep post e have "unat k + unat (extent st k) \<le> unat (fst e)" by auto
    with cov show ?thesis by (simp add: covers_def word_less_nat_alt)
  qed
  with xs pre show ?thesis by (intro that) auto
qed

lemma covers_inRange:
  assumes v: "validAt st r k (extent st k)" and nowrap: "unat k + unat (extent st k) < 2 ^ 64"
  shows "Allocation2_inRange_address st r a = Inr (covers st k a)"
proof -
  have "unat (k + extent st k) = unat k + unat (extent st k)"
    using nowrap by (simp add: unat_add64)
  then show ?thesis
    by (simp add: validAt_inRange(1) [OF v] covers_def word_le_nat_alt word_less_nat_alt)
qed

lemma find_covering:
  assumes wf: "wellFormed2 st" and mem: "(k, s) \<in> set (bindings2 st)" and cov: "covers st k a"
  shows "Allocator2_find st a = Inr (Some (hd s))"
proof -
  from covering_split [OF wf mem cov] obtain pre post
    where xs: "bindings2 st = pre @ (k, s) # post"
      and pre: "\<forall>e\<in>set pre. fst e < k"
      and post: "\<forall>e\<in>set post. a < fst e \<and> unat k + unat (extent st k) \<le> unat (fst e)"
    by blast
  from wellBound_facts [OF wf mem] obtain r rs where s: "s = r # rs"
    and v: "validAt st r k (extent st k)" and nowrap: "unat k + unat (extent st k) < 2 ^ 64"
    by metis
  from cov have ka: "k \<le> a" by (simp add: covers_def word_le_nat_alt)
  note copy = validAt_copy(1) [OF v]
  show ?thesis
  proof (cases "a = k")
    case True
    then show ?thesis using map_of_split [OF pre, of s post] xs s copy
      by (simp add: Allocator2_find_def firstOf_def)
  next
    case False
    with ka have lt: "k < a" by simp
    have "a \<notin> fst ` set (bindings2 st)" using xs pre post lt False by auto
    then have none: "map_of (bindings2 st) a = None" by (simp add: map_of_eq_None_iff)
    have "upper_bound a ((pre @ [(k, s)]) @ post) = length (pre @ [(k, s)])"
      using pre post ka by (intro upper_bound_append) auto
    then have ub: "upper_bound a (bindings2 st) = Suc (length pre)" using xs by simp
    have nth: "bindings2 st ! length pre = (k, s)" using xs by simp
    show ?thesis
      using none ub nth s covers_inRange [OF v nowrap, of a] cov copy
      by (simp add: Allocator2_find_def firstOf_def)
  qed
qed






lemma willSplit_covered:
  assumes wf: "wellFormed2 st" and mem: "(k, s) \<in> set (bindings2 st)" and cov: "covers st k a"
  shows "Allocator2_willSplit st a n =
           Inr (\<not> (n \<noteq> 0 \<and> k \<le> a + n - 1 \<and> a + n - 1 < k + extent st k)
                \<and> upper_bound a (pooledMemory st) \<noteq> length (pooledMemory st)
                \<and> k + extent st k = fst (pooledMemory st ! upper_bound a (pooledMemory st)))"
proof -
  from wellBound_facts [OF wf mem] obtain r rs where s: "s = r # rs"
    and v: "validAt st r k (extent st k)" and nowrap: "unat k + unat (extent st k) < 2 ^ 64"
    by metis
  have "unat (k + extent st k) = unat k + unat (extent st k)"
    using nowrap by (simp add: unat_add64)
  with cov have "k \<le> a" "a < k + extent st k"
    by (simp_all add: covers_def word_le_nat_alt word_less_nat_alt)
  then show ?thesis
    using find_covering [OF wf mem cov] s validAt_facts(3,9) [OF v] validAt_inRange(2) [OF v]
    by (auto simp: Allocator2_willSplit_def Let_def)
qed


subsection \<open>The example layouts are well-formed\<close>

lemma upt16: "[0..<16] = [0, 1, 2, 3, 4, 5, 6, 7, 8, 9, 10, 11, 12, 13, 14, 15]"
  by (simp add: upt_rec)

lemma upt8: "[0..<8] = [0, 1, 2, 3, 4, 5, 6, 7]"
  by (simp add: upt_rec)

lemma upt10: "[0..<10] = [0, 1, 2, 3, 4, 5, 6, 7, 8, 9]"
  by (simp add: upt_rec)




lemma threeExtents_valid:
  "validAt threeExtents 11 0 16" "validAt threeExtents 12 16 8" "validAt threeExtents 13 30 10"
  by (simp_all add: validAt_def threeExtents_def isPooled2_def)

lemma threeExtents_bindings: "bindings2 threeExtents = [(0, [11]), (16, [12]), (30, [13])]"
  by (simp add: threeExtents_def)

lemma threeExtents_extent:
  "extent threeExtents 0 = 16" "extent threeExtents 16 = 8" "extent threeExtents 30 = 10"
  by (simp_all add: extent_def poolOf_def AddressPool_size_def threeExtents_def)

lemma threeExtents_backed:
  "accessible (memory2 threeExtents) 0 16" "accessible (memory2 threeExtents) 16 8"
  "accessible (memory2 threeExtents) 30 10"
  by (simp_all add: accessible_def upt16 upt8 upt10 threeExtents_def twoExtents_def)

lemma threeExtents_wellFormed: "wellFormed2 threeExtents"
  using threeExtents_valid threeExtents_backed
  by (simp add: wellFormed2_def wellBound_def threeExtents_extent threeExtents_bindings)
    (simp add: threeExtents_def)


subsection \<open>What \<open>splitRead\<close> can throw\<close>

lemma bindE_Inl: "bindE m f = Inl e \<longleftrightarrow> m = Inl e \<or> (\<exists>x. m = Inr x \<and> f x = Inl e)"
  by (cases m) simp_all

lemma size_not_splits: "Allocation2_size st r \<noteq> Inl (SplitsExceededException x y)"
  by (auto simp: Allocation2_size_def querySize_def throwIfNotBound2_def bindE_Inl
      split: option.splits if_splits)

lemma isValid_not_splits: "Allocation2_isValid st r \<noteq> Inl (SplitsExceededException x y)"
  using size_not_splits [of st r x y]
  by (auto simp: Allocation2_isValid_def Allocation2_isBound_def Allocation2_isNull_def bindE_Inl
      split: option.splits if_splits)

lemma isBound_not_splits: "Allocation2_isBound st r \<noteq> Inl (SplitsExceededException x y)"
  using size_not_splits [of st r x y]
  by (auto simp: Allocation2_isBound_def Allocation2_isNull_def bindE_Inl
      split: option.splits if_splits)

lemma isNull_not_splits: "Allocation2_isNull st r \<noteq> Inl (SplitsExceededException x y)"
  using size_not_splits [of st r x y]
  by (auto simp: Allocation2_isNull_def bindE_Inl split: option.splits if_splits)

lemma address_not_splits: "Allocation2_address st r offset \<noteq> Inl (SplitsExceededException x y)"
  using size_not_splits [of st r x y] isValid_not_splits [of st r x y]
  by (auto simp: Allocation2_address_def Allocation2_throwIfInvalid_def Allocator2_address_def
      throwIfNotBound2_def throwIfNotPooled2_def bindE_Inl split: option.splits if_splits)

lemma inRange_not_splits:
  "Allocation2_inRange_address st r a \<noteq> Inl (SplitsExceededException x y)"
  using size_not_splits [of st r x y] address_not_splits [of st r _ x y]
  by (auto simp: Allocation2_inRange_address_def Allocation2_start_def Allocation2_end_def
      bindE_Inl split: if_splits)

lemma find_not_splits: "Allocator2_find st a \<noteq> Inl (SplitsExceededException x y)"
  using isValid_not_splits [of st _ x y] inRange_not_splits [of st _ a x y]
  by (auto simp: Allocator2_find_def copyOf_def firstOf_def bindE_Inl Let_def
      split: option.splits if_splits list.splits)

lemma destroyFound_not_splits: "destroyFound st found \<noteq> Inl (SplitsExceededException x y)"
  using isBound_not_splits [of st _ x y]
  by (auto simp: destroyFound_def throwIfNotPooled2_def bindE_Inl split: option.splits if_splits)

lemma check_not_splits: "throwIfNoAllocation st a \<noteq> Inl (SplitsExceededException x y)"
  using find_not_splits [of st a x y] destroyFound_not_splits [of st _ x y]
    isNull_not_splits [of st _ x y]
  by (auto simp: throwIfNoAllocation_def hasAddress_def bindE_Inl split: option.splits if_splits)

lemma splitRead_fails:
  "Allocator2_splitRead st a n =
     (case throwIfNoAllocation st a of
        Inl e \<Rightarrow> Inl e
      | Inr st1 \<Rightarrow> (case Allocator2_find st1 a of
                     Inl e \<Rightarrow> Inl e
                   | Inr found \<Rightarrow> Inl (AddressHasNoAllocationException a)))"
  by (simp add: Allocator2_splitRead_def splitRead_state_fails split: sum.splits)

lemma splitRead_not_splits:
  "Allocator2_splitRead st a n \<noteq> Inl (SplitsExceededException x y)"
  using check_not_splits [of st a x y] find_not_splits [of _ a x y]
  by (auto simp: splitRead_fails split: sum.splits)

lemma splitRead_not_returns: "Allocator2_splitRead st a n \<noteq> Inr data"
  by (simp add: splitRead_fails split: sum.splits)

lemma covered_check:
  assumes wf: "wellFormed2 st" and mem: "(k, s) \<in> set (bindings2 st)" and cov: "covers st k a"
  shows "throwIfNoAllocation st a = Inr (st\<lparr>addressPools := (addressPools st)(k := None)\<rparr>)"
proof -
  from wellBound_facts [OF wf mem] obtain r rs where s: "s = r # rs"
    and v: "validAt st r k (extent st k)" by metis
  from find_covering [OF wf mem cov] s have f: "Allocator2_find st a = Inr (Some r)" by simp
  show ?thesis
    using f validAt_copy(2) [OF v] validAt_facts(3) [OF v]
    by (simp add: throwIfNoAllocation_def hasAddress_def)
qed

lemma threeExtents_covers:
  "(0, [11]) \<in> set (bindings2 threeExtents)" "(16, [12]) \<in> set (bindings2 threeExtents)"
  "covers threeExtents 0 10" "covers threeExtents 16 20"
  by (simp_all add: threeExtents_bindings covers_def threeExtents_extent)

lemma checked_splitRead:
  assumes "throwIfNoAllocation st a = Inr st1"
  shows "Allocator2_splitRead st a n
           = Inl (if map_of (bindings2 st) a = None then ZeroSizeException
                  else AddressHasNoAllocationException a)"
  using assms refind_exact [OF assms] by (simp add: splitRead_fails)

lemma twoExtents_check:
  "throwIfNoAllocation twoExtents 10
     = Inr (twoExtents\<lparr>addressPools := (addressPools twoExtents)(0 := None)\<rparr>)"
  using twoExtents_find validAt_copy(2) [OF twoExtents_valid(1)]
    validAt_facts(3) [OF twoExtents_valid(1)]
  by (simp add: throwIfNoAllocation_def hasAddress_def)

lemma twoExtents_walk:
  "splitRead_loop twoExtents [(0, [11]), (16, [12])] 10 10 [] = Inl UndefinedBehaviour"
  by (simp add: splitRead_loop.simps firstOf_def twoExtents_read_A
      validAt_inRange(2) [OF twoExtents_valid(1)] validAt_facts(9) [OF twoExtents_valid(1)])

lemma threeExtents_read_B:
  "Allocator2_read_allocation threeExtents 12 20 4 = Inr [204, 205, 206, 207]"
  by (simp add: Allocator2_read_allocation_def Allocation2_throwIfNotInRange_def
      validAt_inRange(2) [OF threeExtents_valid(2)] readAddress_def CopyData_out_def
      accessible_def load_def upt4)
    (simp add: threeExtents_def twoExtents_def)

lemma threeExtents_walk:
  "splitRead_loop threeExtents [(16, [12]), (30, [13])] 20 15 [] = Inl UndefinedBehaviour"
  by (simp add: splitRead_loop.simps firstOf_def threeExtents_read_B
      validAt_inRange(2) [OF threeExtents_valid(2)] validAt_facts(9) [OF threeExtents_valid(2)])

lemma threeExtents_willSplit:
  "Allocator2_willSplit threeExtents 10 20 = Inr True"
  "Allocator2_willSplit threeExtents 20 15 = Inr False"
  by (simp_all add: willSplit_covered [OF threeExtents_wellFormed threeExtents_covers(1,3)]
      willSplit_covered [OF threeExtents_wellFormed threeExtents_covers(2,4)]
      threeExtents_extent upper_bound_def)
    (simp_all add: threeExtents_def)

subsection \<open>C1: a split read over two adjacent extents\<close>

text \<open>
  C1. With extent A at the addresses 0 to 15 and extent B at 16 to 23,
  \<open>splitRead(address = 10, size = 10)\<close> should return the six bytes 110 to 115 of A
  followed by the four bytes 200 to 203 of B. \<open>willSplit\<close> is true for the request and
  each of the two pieces can be read from its allocation, but \<open>splitRead\<close> returns
  nothing. Its walk copies the first piece behind the end of the grown \<open>result\<close>,
  which has no defined behaviour; and the walk is not reached, because
  \<open>throwIfNoAllocation\<close> leaves extent A without its address pool, so that the lookup
  of \<open>willSplit\<close> ends in \<open>ZeroSizeException\<close>.
\<close>

theorem splitRead_adjacent_fails:
  "Allocator2_willSplit twoExtents 10 10 = Inr True
   \<and> Allocator2_read_allocation twoExtents 11 10 6 = Inr [110, 111, 112, 113, 114, 115]
   \<and> Allocator2_read_allocation twoExtents 12 16 4 = Inr [200, 201, 202, 203]
   \<and> splitRead_loop twoExtents [(0, [11]), (16, [12])] 10 10 [] = Inl UndefinedBehaviour
   \<and> Allocator2_splitRead twoExtents 10 10 = Inl ZeroSizeException"
proof -
  have will: "Allocator2_willSplit twoExtents 10 10 = Inr True"
    by (simp add: Allocator2_willSplit_def twoExtents_find twoExtents_pool
        validAt_facts(3,9) [OF twoExtents_valid(1)] validAt_inRange(2) [OF twoExtents_valid(1)])
  have "Allocator2_splitRead twoExtents 10 10 = Inl ZeroSizeException"
    using checked_splitRead [OF twoExtents_check, of 10] by (simp add: twoExtents_bindings)
  with will twoExtents_read_A twoExtents_read_B twoExtents_walk show ?thesis by simp
qed


subsection \<open>C2: when a request will split\<close>




subsection \<open>C3: a split read that meets a gap\<close>

text \<open>
  C3. With the extents A at 0 to 15, B at 16 to 23 and C at 30 to 39, the 15 bytes from
  address 20 start in B and meet the gap at 24, and the 20 bytes from address 10 cross
  from A into B and then meet the same gap; \<open>willSplit\<close> is false for the first
  request and true for the second. Both calls of \<open>splitRead\<close> should fail with
  \<open>SplitsExceededException\<close>. Both fail with \<open>ZeroSizeException\<close>:
  \<open>throwIfNoAllocation\<close> leaves the extent of the start address without its address
  pool, and the lookup of \<open>willSplit\<close> throws before the walk begins. The walk from B,
  taken by itself, does not get to the test of the gap either: it copies the four bytes
  it has read from B behind the end of \<open>result\<close>. In no state and for no request does
  \<open>splitRead\<close> throw \<open>SplitsExceededException\<close>, and in none does it return a
  result, truncated or not.
\<close>

theorem splitRead_gap_not_splits_exceeded:
  "Allocator2_willSplit threeExtents 20 15 = Inr False
   \<and> Allocator2_splitRead threeExtents 20 15 = Inl ZeroSizeException
   \<and> Allocator2_willSplit threeExtents 10 20 = Inr True
   \<and> Allocator2_splitRead threeExtents 10 20 = Inl ZeroSizeException
   \<and> splitRead_loop threeExtents [(16, [12]), (30, [13])] 20 15 [] = Inl UndefinedBehaviour
   \<and> Allocator2_splitRead st a n \<noteq> Inl (SplitsExceededException a' n')
   \<and> Allocator2_splitRead st a n \<noteq> Inr data"
proof -
  have 1: "Allocator2_splitRead threeExtents 20 15 = Inl ZeroSizeException"
    using checked_splitRead
      [OF covered_check [OF threeExtents_wellFormed threeExtents_covers(2,4)], of 15]
    by (simp add: threeExtents_bindings)
  have 2: "Allocator2_splitRead threeExtents 10 20 = Inl ZeroSizeException"
    using checked_splitRead
      [OF covered_check [OF threeExtents_wellFormed threeExtents_covers(1,3)], of 20]
    by (simp add: threeExtents_bindings)
  from 1 2 threeExtents_willSplit threeExtents_walk
    splitRead_not_splits [of st a n a' n'] splitRead_not_returns [of st a n data]
  show ?thesis by simp
qed


subsection \<open>C4: writing a whole allocation and reading it back\<close>

text \<open>
  C4. Let \<open>r\<close> be a valid allocation: bound, of the size of its pooled extent, in an
  allocator whose extents are backed by memory. Writing \<open>data\<close> of exactly that size at
  offset 0 succeeds, and reading the whole allocation at offset 0 immediately afterwards
  returns exactly \<open>data\<close>.
\<close>

theorem write_read_roundtrip:
  assumes obj: "objects st r = Some a"
    and bound: "Allocation_isBound st r"
    and lockstep: "memoryPool st (pointer a) = Some (size' a)"
    and backed: "poolBacked st"
    and len: "length data = unat (size' a)"
  shows "\<exists>st'. Allocation_write st r 0 data = Inr st'
            \<and> Allocation_read st' r 0 (size' a) = Inr data"
proof -
  from backed lockstep have nowrap: "unat (pointer a) + unat (size' a) < 2 ^ 64"
    and acc: "accessible (memory st) (pointer a) (unat (size' a))"
    by (auto simp: poolBacked_def)
  from bound obj have valid: "Allocation_isValid st r" and abound: "Allocator_isBound st r"
    and al: "allocator a" and p0: "pointer a \<noteq> 0" and s0: "size' a \<noteq> 0"
    by (auto simp: Allocation_isBound_def Allocation_isValid_def)
  have n: "of_nat (length data) = size' a" by (simp add: len)
  have "unat (size' a) < 2 ^ LENGTH(64)" by (rule unsigned_less)
  then have l64: "length data \<le> 2 ^ 64" using len by simp
  have rng: "Allocation_inRange_address_size a (pointer a) (size' a)"
    by (rule inRange_whole [OF p0 s0 nowrap])
  let ?st' = "st\<lparr>memory := store (memory st) (pointer a) data\<rparr>"
  have w: "Allocation_write st r 0 data = Inr ?st'"
    using obj valid abound al rng acc
    by (simp add: Allocation_write_def Allocation_address_def Allocation_throwIfInvalid_def
        Allocation_write_address_def throwIfNotBound_def Allocator_write_def
        Allocation_throwIfNotInRange_def CopyData_in_def n len)
  have abound': "Allocator_isBound ?st' r"
    using abound obj by (simp add: Allocator_isBound_def)
  have rd: "Allocation_read ?st' r 0 (size' a) = Inr data"
    using obj abound' al rng accessible_store [OF l64, of "memory st" "pointer a"]
      load_store [OF l64, of "memory st" "pointer a"]
    by (simp add: Allocation_read_def Allocation_read_address_def throwIfNotBound_def
        Allocator_read_def Allocation_throwIfNotInRange_def CopyData_out_def len)
  from w rd show ?thesis by blast
qed

theorem write_read_roundtrip_witness:
  "\<exists>st'. Allocation_write exampleAllocator 1 0 [10, 20, 30, 40] = Inr st'
       \<and> Allocation_read st' 1 0 4 = Inr [10, 20, 30, 40]"
  using write_read_roundtrip [of exampleAllocator 1
      "\<lparr>allocator = True, pointer = 4096, size' = 4\<rparr>" "[10, 20, 30, 40]"]
    exampleAllocator_backed exampleAllocator_bound
  by (simp add: exampleAllocator_def)

subsection \<open>C5: releasing the aliases of one extent\<close>




subsection \<open>C6: reallocation and the leading bytes\<close>

text \<open>
  C6. Reallocation should keep the first \<open>min (old size) (new size)\<close> bytes. In
  \<open>part_001\<close> it does not come to that for an allocation that is bound:
  \<open>Allocation::reallocate\<close> calls \<open>Allocator::repool\<close>, which pools the new block and
  copies the leading bytes into it, and then walks the binding set of the old address
  calling \<open>rebind\<close>. \<open>rebind\<close> erases the very element the iterator refers to, and the
  \<open>++setIter\<close> that follows has no defined behaviour. A valid allocation is always
  bound, so every such \<open>reallocate\<close> ends there. Only for a pooled extent that no
  allocation is bound to does \<open>Allocator::repool\<close> return, and then the new extent
  holds the old leading bytes. \<open>LocalAllocator::repoolAddress\<close> of \<open>part_000\<close> has no
  such walk and keeps the leading bytes.
\<close>

theorem reallocate_walk_undefined:
  "(bindingsAgree st \<longrightarrow> poolBacked st \<longrightarrow> objects st r = Some a \<longrightarrow> Allocation_isBound st r \<longrightarrow>
    newPointer \<noteq> 0 \<longrightarrow> n \<noteq> 0 \<longrightarrow> newPointer \<noteq> pointer a \<longrightarrow>
      Allocator_repool st newPointer (pointer a) n = Inl UndefinedBehaviour
      \<and> Allocation_reallocate st r newPointer n = Inl UndefinedBehaviour)
   \<and> (bindingSet st address = [] \<longrightarrow> memoryPool st address = Some old' \<longrightarrow>
      accessible (memory st) address (unat old') \<longrightarrow>
      disjointBlocks newPointer (unat n) address (unat old') \<longrightarrow>
      newPointer \<noteq> 0 \<longrightarrow> n \<noteq> 0 \<longrightarrow> newPointer \<noteq> address \<longrightarrow>
      (\<exists>st'. Allocator_repool st newPointer address n = Inr (newPointer, st')
          \<and> memoryPool st' = (memoryPool st)(newPointer \<mapsto> n, address := None)
          \<and> load (memory st') newPointer (unat (min n old'))
              = load (memory st) address (unat (min n old'))))
   \<and> (map_of (pooledMemory st2) address2 = Some old \<longrightarrow>
      accessible (memory2 st2) address2 (unat old) \<longrightarrow>
      disjointBlocks newAddress (unat newSize) address2 (unat old) \<longrightarrow> newAddress \<noteq> address2 \<longrightarrow>
      (\<exists>st'. repoolAddress st2 newAddress address2 newSize = Inr (newAddress, st')
          \<and> map_of (pooledMemory st') newAddress = Some newSize
          \<and> load (memory2 st') newAddress (unat (min old newSize))
              = load (memory2 st2) address2 (unat (min old newSize))))"
proof (intro conjI impI)
  assume agree: "bindingsAgree st" and backed: "poolBacked st" and obj: "objects st r = Some a"
    and bound: "Allocation_isBound st r"
    and nn: "newPointer \<noteq> 0" "n \<noteq> 0" and other: "newPointer \<noteq> pointer a"
  let ?address = "pointer a"
  from bound obj have valid: "Allocation_isValid st r" and abound: "Allocator_isBound st r"
    by (auto simp: Allocation_isBound_def)
  from valid obj obtain old where old: "memoryPool st ?address = Some old"
    by (auto simp: Allocation_isValid_def isPooled_def)
  with backed have acc: "accessible (memory st) ?address (unat old)"
    by (simp add: poolBacked_def)
  from abound obj obtain s where s: "bindings st ?address = Some s" "r \<in> set s"
    by (auto simp: Allocator_isBound_def split: option.splits)
  then obtain r0 rs where s0: "s = r0 # rs" by (cases s) auto
  from agree s(1) have "distinct s \<and> (\<forall>x\<in>set s. \<exists>y. objects st x = Some y \<and> pointer y = ?address)"
    unfolding bindingsAgree_def by blast
  with s0 have d: "distinct (r0 # rs)" and "\<exists>y. objects st r0 = Some y \<and> pointer y = ?address"
    by simp_all
  then obtain y where y: "objects st r0 = Some y" "pointer y = ?address" by blast
  from s(1) s0 have b: "bindings st ?address = Some (r0 # rs)" by simp
  show rp: "Allocator_repool st newPointer ?address n = Inl UndefinedBehaviour"
    by (rule repool_undefined [OF b d y old acc nn other])
  show "Allocation_reallocate st r newPointer n = Inl UndefinedBehaviour"
    using valid obj rp by (simp add: Allocation_reallocate_def)
next
  assume "bindingSet st address = []" "memoryPool st address = Some old'"
    "accessible (memory st) address (unat old')"
    "disjointBlocks newPointer (unat n) address (unat old')"
    "newPointer \<noteq> 0" "n \<noteq> 0" "newPointer \<noteq> address"
  from repool_unbound_preserves [OF this]
  show "\<exists>st'. Allocator_repool st newPointer address n = Inr (newPointer, st')
          \<and> memoryPool st' = (memoryPool st)(newPointer \<mapsto> n, address := None)
          \<and> load (memory st') newPointer (unat (min n old'))
              = load (memory st) address (unat (min n old'))" .
next
  assume "map_of (pooledMemory st2) address2 = Some old"
    "accessible (memory2 st2) address2 (unat old)"
    "disjointBlocks newAddress (unat newSize) address2 (unat old)" "newAddress \<noteq> address2"
  from repoolAddress_preserves [OF this]
  show "\<exists>st'. repoolAddress st2 newAddress address2 newSize = Inr (newAddress, st')
          \<and> map_of (pooledMemory st') newAddress = Some newSize
          \<and> load (memory2 st') newAddress (unat (min old newSize))
              = load (memory2 st2) address2 (unat (min old newSize))"
    by blast
qed

text \<open>
  The four-byte allocation holding 10, 20, 30, 40 is reallocated to two bytes at 8192;
  an extent of the same contents that nothing is bound to is repooled; and so is the
  extent of the local backing store.
\<close>

theorem reallocate_walk_undefined_witness:
  "Allocation_reallocate filledAllocator 1 8192 2 = Inl UndefinedBehaviour
   \<and> (\<exists>st'. Allocator_repool pooledOnly 8192 4096 2 = Inr (8192, st')
       \<and> load (memory st') 8192 2 = [10, 20])
   \<and> (\<exists>st'. repoolAddress filledPool 8192 4096 2 = Inr (8192, st')
       \<and> load (memory2 st') 8192 2 = [10, 20])"
proof -
  note inst = reallocate_walk_undefined [of _ _ _ 8192 2 4096 4 filledPool 4096 4 8192 2]
  have 1: "Allocation_reallocate filledAllocator 1 8192 2 = Inl UndefinedBehaviour"
    using inst [of filledAllocator 1 "\<lparr>allocator = True, pointer = 4096, size' = 4\<rparr>"]
      filled_facts by simp
  have 2: "\<exists>st'. Allocator_repool pooledOnly 8192 4096 2 = Inr (8192, st')
       \<and> load (memory st') 8192 2 = [10, 20]"
    using inst [of pooledOnly 1 "\<lparr>allocator = True, pointer = 0, size' = 0\<rparr>"]
      pooledOnly_facts filled_facts(7) by (auto simp: min_def)
  have 3: "\<exists>st'. repoolAddress filledPool 8192 4096 2 = Inr (8192, st')
       \<and> load (memory2 st') 8192 2 = [10, 20]"
    using inst [of pooledOnly 1 "\<lparr>allocator = True, pointer = 0, size' = 0\<rparr>"]
      filledPool_facts filled_facts(7) by (auto simp: min_def)
  from 1 2 3 show ?thesis by blast
qed


subsection \<open>C7: the range test\<close>

text \<open>
  C7, as stated, fails twice. In the pointer-based \<open>Allocation\<close> of \<open>part_001\<close> the range
  is closed at both ends and has no test for size 0: an access of size 0 at the
  one-past-end offset 4 of a four-byte allocation is in range. In \<open>part_002\<close> the test
  of the last byte, \<open>offset + size - 1\<close>, is computed in 64 bits: for the sixteen-byte
  allocation 11 the access of size \<open>2^64 - 3\<close> at offset 5 is in range, because
  \<open>5 + (2^64 - 3) - 1\<close> wraps around to 1.
\<close>

theorem inRange_counterexample:
  "Allocation_inRange_offset_size \<lparr>allocator = True, pointer = 4096, size' = 4\<rparr> 4 0
   \<and> \<not> (unat (4 :: SIZE_T) + unat (0 :: SIZE_T) \<le> unat (4 :: SIZE_T) \<and> (0 :: SIZE_T) < 0)
   \<and> Allocation2_inRange_offset_size twoExtents 11 5 18446744073709551613 = Inr True
   \<and> \<not> (unat (5 :: SIZE_T) + unat (18446744073709551613 :: SIZE_T) \<le> unat (16 :: SIZE_T))"
  by (simp add: Allocation_inRange_offset_size_def Allocation_inRange_offset_def
      Allocation2_inRange_offset_size_def v3_inRange_offset [OF twoExtents_valid(1)])

text \<open>
  C7, amended. For a validly bound allocation of \<open>part_002\<close> with size \<open>n\<close>, and an
  offset and a size whose sum does not exceed \<open>2^64\<close>, the access is in range if and only
  if the size is positive and offset plus size is at most \<open>n\<close>: the half-open range,
  where a zero-size access and an access reaching the one-past-end position are out of
  range. For an allocation of \<open>part_001\<close> with a non-null pointer and size \<open>n > 0\<close>, and
  offset plus size below \<open>2^64\<close>, the access is in range if and only if offset plus
  size is at most \<open>n\<close>, a zero size included.
\<close>

theorem inRange_half_open:
  "(validAt st r p n \<longrightarrow> unat p + unat n < 2 ^ 64 \<longrightarrow> unat offset + unat k \<le> 2 ^ 64 \<longrightarrow>
      Allocation2_inRange_offset_size st r offset k
        = Inr (0 < k \<and> unat offset + unat k \<le> unat n))
   \<and> (pointer a \<noteq> 0 \<longrightarrow> size' a \<noteq> 0 \<longrightarrow> unat (pointer a) + unat (size' a) < 2 ^ 64 \<longrightarrow>
        unat offset + unat k < 2 ^ 64 \<longrightarrow>
      Allocation_inRange_offset_size a offset k
        = (unat offset + unat k \<le> unat (size' a)))"
proof (intro conjI impI)
  assume v: "validAt st r p n" and nowrap: "unat p + unat n < 2 ^ 64"
    and small: "unat offset + unat k \<le> 2 ^ 64"
  show "Allocation2_inRange_offset_size st r offset k
        = Inr (0 < k \<and> unat offset + unat k \<le> unat n)"
  proof (cases "k = 0")
    case True
    then show ?thesis by (simp add: Allocation2_inRange_offset_size_def)
  next
    case False
    then have k1: "1 \<le> unat k" by (simp add: unat_gt_0 Suc_le_eq)
    have last: "unat (offset + k - 1) = unat offset + unat k - 1"
      by (rule unat_last_offset [OF False small])
    have "(unat offset < unat n \<and> unat (offset + k - 1) < unat n)
            \<longleftrightarrow> unat offset + unat k \<le> unat n"
      using last k1 by auto
    with False show ?thesis
      by (auto simp: Allocation2_inRange_offset_size_def v3_inRange_offset [OF v nowrap]
          word_greater_zero_iff)
  qed
next
  assume p0: "pointer a \<noteq> 0" and s0: "size' a \<noteq> 0"
    and nowrap: "unat (pointer a) + unat (size' a) < 2 ^ 64"
    and small: "unat offset + unat k < 2 ^ 64"
  have one: "Allocation_inRange_offset a x = (unat x \<le> unat (size' a))" for x
    using p0 s0 offset_in_closed_extent [OF nowrap, of x]
    by (simp add: Allocation_inRange_offset_def Let_def)
  have "unat (offset + k) = unat offset + unat k" using small by (simp add: unat_add64)
  then show "Allocation_inRange_offset_size a offset k
        = (unat offset + unat k \<le> unat (size' a))"
    by (auto simp: Allocation_inRange_offset_size_def one)
qed


theorem inRange_half_open_witness:
  "Allocation2_inRange_offset_size twoExtents 11 10 6 = Inr True
   \<and> Allocation2_inRange_offset_size twoExtents 11 10 7 = Inr False
   \<and> Allocation2_inRange_offset_size twoExtents 11 16 0 = Inr False
   \<and> Allocation_inRange_offset_size \<lparr>allocator = True, pointer = 4096, size' = 4\<rparr> 2 2"
  using inRange_half_open [of twoExtents 11 0 16 10 6
      "\<lparr>allocator = True, pointer = 4096, size' = 4\<rparr>"]
    inRange_half_open [of twoExtents 11 0 16 10 7
      "\<lparr>allocator = True, pointer = 4096, size' = 4\<rparr>"]
    inRange_half_open [of twoExtents 11 0 16 16 0
      "\<lparr>allocator = True, pointer = 4096, size' = 4\<rparr>"]
    inRange_half_open [of twoExtents 11 0 16 2 2
      "\<lparr>allocator = True, pointer = 4096, size' = 4\<rparr>"]
    twoExtents_valid(1)
  by simp

subsection \<open>C8: a deallocated handle is dead\<close>




subsection \<open>C9: allocator-level deallocation of a shared extent\<close>

text \<open>
  C9. \<open>Allocator::deallocate(a)\<close> is meant to unpool the extent of \<open>a\<close> and with it to
  unbind every allocation of the extent's binding set. It does not get that far. For
  an allocation \<open>a\<close> that the allocator manages, \<open>unpool\<close> walks the binding set with an
  iterator and calls \<open>unbind\<close> on the first element; \<open>unbind\<close> erases that element from
  the set, and the \<open>++setIter\<close> that follows advances an iterator to an erased element:
  the call has no defined behaviour, whether or not a second allocation shares the
  extent. For an allocation the client owns, \<open>throwIfNotAllocated\<close> ends the call with
  \<open>UnmanagedAllocationException\<close> and nothing is unpooled.
\<close>

theorem allocator_deallocate_undefined:
  assumes agree: "bindingsAgree st"
    and backed: "poolBacked st"
    and obj: "objects st a = Some A"
    and pooled: "isPooled st (pointer A)"
    and shared: "bindings st (pointer A) = Some s" "a \<in> set s"
  shows "(a \<in> set (allocations st) \<longrightarrow> Allocator_deallocate st a = Inl UndefinedBehaviour)
       \<and> (a \<notin> set (allocations st) \<longrightarrow> Allocator_deallocate st a = Inl UnmanagedAllocationException)"
proof (intro conjI impI)
  assume managed: "a \<in> set (allocations st)"
  let ?p = "pointer A"
  from pooled obtain n where n: "memoryPool st ?p = Some n" by (auto simp: isPooled_def)
  with backed have acc: "accessible (memory st) ?p (unat n)" by (simp add: poolBacked_def)
  from shared(2) obtain r rs where s: "s = r # rs" by (cases s) auto
  from agree shared(1) have "distinct s \<and> (\<forall>r\<in>set s. \<exists>x. objects st r = Some x \<and> pointer x = ?p)"
    unfolding bindingsAgree_def by blast
  with s have d: "distinct (r # rs)"
    and "\<exists>x. objects st r = Some x \<and> pointer x = ?p"
    by simp_all
  then obtain x where x: "objects st r = Some x" "pointer x = ?p" by blast
  from shared(1) s have "bindings st ?p = Some (r # rs)" by simp
  from unpool_undefined [OF this d x n acc]
  show "Allocator_deallocate st a = Inl UndefinedBehaviour"
    using managed obj pooled
    by (simp add: Allocator_deallocate_def throwIfNotAllocated_def isAllocated_def
        throwIfNotPooled_def)
next
  assume "a \<notin> set (allocations st)"
  then show "Allocator_deallocate st a = Inl UnmanagedAllocationException"
    by (simp add: Allocator_deallocate_def throwIfNotAllocated_def isAllocated_def)
qed

text \<open>
  The allocator-created allocation 1 and its client-owned alias 2 share the extent at
  4096.
\<close>

theorem allocator_deallocate_undefined_witness:
  "Allocator_deallocate sharedAllocator 1 = Inl UndefinedBehaviour
   \<and> Allocator_deallocate sharedAllocator 2 = Inl UnmanagedAllocationException"
  using allocator_deallocate_undefined [of sharedAllocator 1
      "\<lparr>allocator = True, pointer = 4096, size' = 4\<rparr>" "[1, 2]"]
    allocator_deallocate_undefined [of sharedAllocator 2
      "\<lparr>allocator = True, pointer = 4096, size' = 4\<rparr>" "[1, 2]"]
    sharedAllocator_backed sharedAllocator_agree
  by (simp add: sharedAllocator_def isPooled_def)


subsection \<open>C10: the split toggle has no observable effect\<close>

text \<open>
  C10. Whether the flag was last set by \<open>allowSplitting()\<close> or cleared by
  \<open>denySplitting()\<close>, \<open>willSplit\<close> gives the same answer, the reads (\<open>Allocation::read\<close>,
  \<open>Allocator::read\<close>, \<open>splitRead\<close>) return the same result, and the writes
  (\<open>Allocation::write\<close>, \<open>Allocator::write\<close>, \<open>splitWrite\<close>) end with the same error or in
  states that differ in nothing but the flag itself.
\<close>

theorem split_flag_unobserved:
  "Allocator2_willSplit (allowSplitting st) address n
     = Allocator2_willSplit (denySplitting st) address n
   \<and> Allocation2_read (allowSplitting st) r offset n
     = Allocation2_read (denySplitting st) r offset n
   \<and> Allocator2_read (allowSplitting st) address n
     = Allocator2_read (denySplitting st) address n
   \<and> Allocator2_splitRead (allowSplitting st) address n
     = Allocator2_splitRead (denySplitting st) address n
   \<and> withSplit b (Allocation2_write (allowSplitting st) r offset data)
     = withSplit b (Allocation2_write (denySplitting st) r offset data)
   \<and> withSplit b (Allocator2_write (allowSplitting st) address data)
     = withSplit b (Allocator2_write (denySplitting st) address data)
   \<and> withSplit b (Allocator2_splitWrite (allowSplitting st) address data)
     = withSplit b (Allocator2_splitWrite (denySplitting st) address data)"
proof -
  have idem: "withSplit b (withSplit c res) = withSplit b res" for c res
    by (cases res) simp_all
  show ?thesis
    by (simp add: allowSplitting_def denySplitting_def idem)
qed

theorem split_flag_unobserved_witness:
  "Allocator2_willSplit (allowSplitting twoExtents) 10 10
     = Allocator2_willSplit (denySplitting twoExtents) 10 10
   \<and> Allocator2_splitRead (allowSplitting twoExtents) 10 10
     = Allocator2_splitRead (denySplitting twoExtents) 10 10
   \<and> withSplit True (Allocator2_write (allowSplitting twoExtents) 10 [1, 2, 3])
     = withSplit True (Allocator2_write (denySplitting twoExtents) 10 [1, 2, 3])"
  using split_flag_unobserved [of twoExtents 10 10 11 0 True "[1, 2, 3]"] by simp

end
